theory Spec2Isabelle
  imports Complex_Main "HOL-Library.Sublist" "HOL-Library.Word" "HOL-Library.Multiset"
begin

section \<open>Strings\<close>

text \<open>
  The texts of the store, of the SQL splitter and of the patterns are modelled as
  \<^typ>\<open>string\<close>, with case conversions that act on the ASCII letters, which is where
  \<open>toLowerCase\<close> and \<open>toUpperCase\<close> act on the keywords of the splitter.
\<close>

definition upper_letters :: string where
  "upper_letters = ''ABCDEFGHIJKLMNOPQRSTUVWXYZ''"

definition lower_letters :: string where
  "lower_letters = ''abcdefghijklmnopqrstuvwxyz''"

definition lower_char :: "char \<Rightarrow> char" where
  "lower_char c = (case map_of (zip upper_letters lower_letters) c of Some d \<Rightarrow> d | None \<Rightarrow> c)"

definition upper_char :: "char \<Rightarrow> char" where
  "upper_char c = (case map_of (zip lower_letters upper_letters) c of Some d \<Rightarrow> d | None \<Rightarrow> c)"

definition toLowerCase :: "string \<Rightarrow> string" where
  "toLowerCase s = map lower_char s"

definition toUpperCase :: "string \<Rightarrow> string" where
  "toUpperCase s = map upper_char s"

section \<open>JavaScript strings and the case tables of the runtime\<close>

text \<open>
  For the dispatch on file extensions a JavaScript string is the list of its UTF-16 code
  units. \<open>String.prototype.toLowerCase\<close> follows the case tables of the Unicode standard,
  which are no part of the repository: the functions that call it take it as a parameter.
  A \<^typ>\<open>string\<close> is read as the code units below 256 that its characters number.
\<close>

type_synonym code_unit = "16 word"

type_synonym js_string = "code_unit list"

definition units_of :: "string \<Rightarrow> js_string" where
  "units_of s = map of_char s"

definition ascii_unit :: "code_unit \<Rightarrow> bool" where
  "ascii_unit u = (u < 0x80)"

definition lower_unit :: "code_unit \<Rightarrow> code_unit" where
  "lower_unit u = (if 0x41 \<le> u \<and> u \<le> 0x5A then u + 0x20 else u)"

definition upper_unit :: "code_unit \<Rightarrow> code_unit" where
  "upper_unit u = (if 0x61 \<le> u \<and> u \<le> 0x7A then u - 0x20 else u)"

text \<open>
  What is used of \<open>toLowerCase\<close>: only the empty string has an empty result, a result is
  its own lower case, and a string of ASCII units has its letters \<open>A\<close> to \<open>Z\<close> replaced by
  \<open>a\<close> to \<open>z\<close>.
\<close>

definition lowercase_contract :: "(js_string \<Rightarrow> js_string) \<Rightarrow> bool" where
  "lowercase_contract lower =
     (\<forall>s. (lower s = [] \<longleftrightarrow> s = []) \<and> lower (lower s) = lower s
          \<and> (list_all ascii_unit s \<longrightarrow> lower s = map lower_unit s))"

section \<open>Extension dispatch (codeSplitter.ts, \<open>extensionToSplitter\<close>)\<close>

definition cpp_exts :: "string list" where
  "cpp_exts = [''c++'', ''cpp'', ''c'', ''h'', ''hpp'', ''m'', ''mm'']"

definition js_exts :: "string list" where
  "js_exts = [''js'', ''ts'', ''typescript'', ''tsx'', ''jsx'', ''javascript'', ''json'', ''pbxproj'']"

definition text_exts :: "string list" where
  "text_exts =
     [''yaml'', ''yml'', ''toml'', ''ini'', ''cfg'', ''conf'', ''props'', ''env'', ''plist'',
      ''gemfile'', ''dockerfile'', ''podfile'', ''patch'',
      ''sh'', ''bash'', ''zsh'', ''fish'', ''bat'', ''cmd'',
      ''properties'', ''xsd'',
      ''text'', ''txt'', ''lst'', ''reg'']"

definition html_exts :: "string list" where
  "html_exts =
     [''html'', ''htm'', ''xml'', ''xsl'', ''xdt'', ''xcworkspacedata'', ''xcprivacy'',
      ''xcsettings'', ''xcscheme'', ''jpr'', ''jws'', ''iml'']"

definition ignore_exts :: "string list" where
  "ignore_exts =
     [''lock'', ''jpg'', ''jpeg'', ''png'', ''gif'', ''bmp'', ''svg'', ''ico'', ''webp'', ''tiff'',
      ''bin'', ''exe'', ''dll'', ''so'', ''dylib'', ''obj'', ''o'', ''zip'', ''tar'', ''gz'',
      ''rar'', ''7z'', ''jar'', ''war'', ''ear'', ''class'']"

text \<open>The \<open>switch\<close> of the source: one row per returned class, holding the \<open>case\<close>
  labels that return it (the labels are pairwise different, so the order of the rows is
  immaterial); the \<open>default\<close> is the end of the table.\<close>

definition switch_table :: "(string list \<times> string) list" where
  "switch_table =
     [(cpp_exts, ''cpp''),
      ([''go''], ''go''),
      ([''java''], ''java''),
      (js_exts, ''js''),
      (text_exts, ''text''),
      ([''sql''], ''sql''),
      ([''php''], ''php''),
      ([''proto''], ''proto''),
      ([''py'', ''python''], ''python''),
      ([''rst''], ''rst''),
      ([''rb'', ''ruby''], ''ruby''),
      ([''rs'', ''rust''], ''rust''),
      ([''scala''], ''scala''),
      ([''swift''], ''swift''),
      ([''md'', ''markdown''], ''markdown''),
      ([''tex'', ''latex''], ''latex''),
      (html_exts, ''html''),
      ([''sol'', ''solidity''], ''sol''),
      (ignore_exts, ''ignore'')]"

fun switch_lookup :: "(string list \<times> string) list \<Rightarrow> js_string \<Rightarrow> string" where
  "switch_lookup [] e = ''text''"
| "switch_lookup ((labels, r) # rest) e =
     (if e \<in> set (map units_of labels) then r else switch_lookup rest e)"

text \<open>The first argument is \<open>toLowerCase\<close> of the runtime.\<close>

definition extensionToSplitter :: "(js_string \<Rightarrow> js_string) \<Rightarrow> js_string \<Rightarrow> string" where
  "extensionToSplitter lower extension =
     (if extension = [] then ''text''
      else switch_lookup switch_table (lower extension))"

definition known_exts :: "js_string list" where
  "known_exts = map units_of (concat (map fst switch_table))"

definition ignored_exts :: "js_string list" where
  "ignored_exts = map units_of ignore_exts"

definition splitter_classes :: "string list" where
  "splitter_classes = ''text'' # map snd switch_table"

section \<open>String helpers of the SQL splitter\<close>

fun startsWith :: "string \<Rightarrow> string \<Rightarrow> bool" where
  "startsWith s [] = True"
| "startsWith [] (k # ks) = False"
| "startsWith (c # s) (k # ks) = (c = k \<and> startsWith s ks)"

text \<open>\<open>s.indexOf(k)\<close>: the first position at which \<open>k\<close> starts, \<open>None\<close> for \<open>-1\<close>.\<close>

fun indexOf :: "string \<Rightarrow> string \<Rightarrow> nat option" where
  "indexOf [] k = (if k = [] then Some 0 else None)"
| "indexOf (c # s) k =
     (if startsWith (c # s) k then Some 0
      else (case indexOf s k of None \<Rightarrow> None | Some i \<Rightarrow> Some (Suc i)))"

definition str_includes :: "string \<Rightarrow> string \<Rightarrow> bool" where
  "str_includes s k = (indexOf s k \<noteq> None)"

text \<open>\<open>trim\<close> removes white space and line terminators at both ends; of those, the
  characters below are the ones a byte string has.\<close>

definition is_space :: "char \<Rightarrow> bool" where
  "is_space c = (c \<in> set [CHR '' '', CHR 0x09, CHR 0x0A, CHR 0x0B, CHR 0x0C, CHR 0x0D])"

definition trim :: "string \<Rightarrow> string" where
  "trim s = rev (dropWhile is_space (rev (dropWhile is_space s)))"

text \<open>\<open>s.split("\n")\<close>.\<close>

fun split_lines :: "string \<Rightarrow> string \<Rightarrow> string list" where
  "split_lines [] cur = [cur]"
| "split_lines (c # cs) cur =
     (if c = CHR 0x0A then cur # split_lines cs [] else split_lines cs (cur @ [c]))"

section \<open>\<open>SQLSchemaSplitter.parseValues\<close>\<close>

record pv_state =
  valuesArray :: "string list"
  currentTuple :: string
  nestingLevel :: int
  inString :: bool
  pv_stringChar :: string
  escapeNext :: bool

definition pv_init :: pv_state where
  "pv_init = \<lparr>valuesArray = [], currentTuple = [], nestingLevel = 0, inString = False,
              pv_stringChar = [], escapeNext = False\<rparr>"

text \<open>The characters the inner \<open>while\<close> skips after a tuple has been closed.\<close>

definition is_tuple_sep :: "char \<Rightarrow> bool" where
  "is_tuple_sep c = (c = CHR '','' \<or> c = CHR '' '' \<or> c = CHR 0x0A)"

text \<open>The \<open>for\<close> loop over \<open>valuesPart\<close>; the first argument is the text from index \<open>i\<close> on.\<close>

function parseValues_loop :: "string \<Rightarrow> pv_state \<Rightarrow> string list" where
  "parseValues_loop [] s = valuesArray s"
| "parseValues_loop (c # cs) s =
     (let s = s\<lparr>currentTuple := currentTuple s @ [c]\<rparr> in
      if escapeNext s then parseValues_loop cs (s\<lparr>escapeNext := False\<rparr>)
      else if c = CHR 0x5C then parseValues_loop cs (s\<lparr>escapeNext := True\<rparr>)
      else if c = CHR 0x27 \<or> c = CHR 0x22 then
        (if inString s \<and> [c] = pv_stringChar s then parseValues_loop cs (s\<lparr>inString := False\<rparr>)
         else if \<not> inString s then
           parseValues_loop cs (s\<lparr>inString := True, pv_stringChar := [c]\<rparr>)
         else parseValues_loop cs s)
      else if \<not> inString s then
        (if c = CHR ''('' then parseValues_loop cs (s\<lparr>nestingLevel := nestingLevel s + 1\<rparr>)
         else if c = CHR '')'' then
           (if nestingLevel s - 1 = 0 then
              parseValues_loop (dropWhile is_tuple_sep cs)
                (s\<lparr>nestingLevel := 0, valuesArray := valuesArray s @ [trim (currentTuple s)],
                   currentTuple := []\<rparr>)
            else parseValues_loop cs (s\<lparr>nestingLevel := nestingLevel s - 1\<rparr>))
         else parseValues_loop cs s)
      else parseValues_loop cs s)"
  by pat_completeness auto
termination
  by (relation "measure (\<lambda>(cs, s). length cs)")
     (auto simp: length_dropWhile_le le_imp_less_Suc)

definition parseValues :: "string \<Rightarrow> string list" where
  "parseValues valuesPart = parseValues_loop valuesPart pv_init"

section \<open>\<open>SQLSchemaSplitter.splitInsertStatement\<close>\<close>

text \<open>The \<open>for\<close> loop over \<open>valuesArray\<close> and the flush after it. Arguments:
  \<open>maxCharacters\<close>, \<open>insertIntoPart\<close>, the tuples still to come, \<open>currentValues\<close>,
  \<open>insertStatements\<close>.\<close>

fun insert_loop :: "nat \<Rightarrow> string \<Rightarrow> string list \<Rightarrow> string \<Rightarrow> string list \<Rightarrow> string list" where
  "insert_loop maxCharacters insertIntoPart [] currentValues insertStatements =
     (if currentValues \<noteq> [] then insertStatements @ [insertIntoPart @ currentValues @ '';'']
      else insertStatements)"
| "insert_loop maxCharacters insertIntoPart (valueTuple # rest) currentValues insertStatements =
     (let newStatementLength =
            length insertIntoPart + length currentValues + length valueTuple + 1 in
      if newStatementLength \<le> maxCharacters then
        (if currentValues \<noteq> [] then
           insert_loop maxCharacters insertIntoPart rest
             (currentValues @ '','' @ valueTuple) insertStatements
         else insert_loop maxCharacters insertIntoPart rest valueTuple insertStatements)
      else
        insert_loop maxCharacters insertIntoPart rest valueTuple
          (insertStatements @ [insertIntoPart @ currentValues @ '';'']))"

definition splitInsertStatement :: "nat \<Rightarrow> string \<Rightarrow> string list" where
  "splitInsertStatement maxCharacters statement =
     (case indexOf (toUpperCase statement) ''VALUES'' of
        None \<Rightarrow> [statement]
      | Some insertIndex \<Rightarrow>
          (let insertIntoPart = take (insertIndex + length ''VALUES'') statement @ '' '';
               valuesPart = drop (insertIndex + length ''VALUES'') statement;
               valuesArray = parseValues valuesPart
           in insert_loop maxCharacters insertIntoPart valuesArray [] []))"

section \<open>\<open>SQLSchemaSplitter.splitSQLStatements\<close>\<close>

record sql_state =
  statements :: "string list"
  currentStatement :: string
  insideString :: bool
  stringChar :: string
  insideComment :: bool
  commentType :: string
  insideFunction :: bool
  insideProcedure :: bool
  insideView :: bool
  insideBlock :: bool
  blockLevel :: int

definition sql_init :: sql_state where
  "sql_init = \<lparr>statements = [], currentStatement = [], insideString = False, stringChar = [],
               insideComment = False, commentType = [], insideFunction = False,
               insideProcedure = False, insideView = False, insideBlock = False,
               blockLevel = 0\<rparr>"

definition beginKeywords :: "string list" where
  "beginKeywords = [''BEGIN'', ''BBEGI'', ''BEGINN'']"

definition endKeywords :: "string list" where
  "endKeywords = [''END'', ''EEN'']"

text \<open>\<open>keywords.find((kw) => remainingText.startsWith(kw))\<close>.\<close>

definition matchKeyword :: "string \<Rightarrow> string list \<Rightarrow> string option" where
  "matchKeyword text keywords = List.find (\<lambda>kw. startsWith text kw) keywords"

definition push_statement :: "sql_state \<Rightarrow> sql_state" where
  "push_statement s =
     s\<lparr>statements := statements s @ [trim (currentStatement s)], currentStatement := []\<rparr>"

text \<open>
  The first \<open>if\<close> chain of the loop body (strings, comments, start of a construct), run
  after \<open>currentStatement += char\<close>. \<open>rest\<close> is \<open>text\<close> from \<open>index\<close> on, \<open>remainingText\<close>
  is \<open>upperText\<close> from \<open>index\<close> on. The result is the state and the amount the chain has
  added to \<open>index\<close>.
\<close>

definition first_chain :: "char \<Rightarrow> string \<Rightarrow> string \<Rightarrow> sql_state \<Rightarrow> sql_state \<times> nat" where
  "first_chain char rest remainingText s =
     (if insideString s then
        (if [char] = stringChar s then (s\<lparr>insideString := False\<rparr>, 0)
         else if char = CHR 0x5C then
           (case tl rest of
              [] \<Rightarrow> (s, 1)
            | c # _ \<Rightarrow> (s\<lparr>currentStatement := currentStatement s @ [c]\<rparr>, 1))
         else (s, 0))
      else if insideComment s then
        (if commentType s = ''--'' \<and> (char = CHR 0x0A \<or> char = CHR 0x0D) then
           (s\<lparr>insideComment := False\<rparr>, 0)
         else if commentType s = ''/*'' \<and> startsWith remainingText ''*/'' then
           (s\<lparr>insideComment := False, currentStatement := currentStatement s @ ''*/''\<rparr>, 1)
         else (s, 0))
      else if char = CHR 0x27 \<or> char = CHR 0x22 then
        (s\<lparr>insideString := True, stringChar := [char]\<rparr>, 0)
      else if startsWith remainingText ''/*'' then
        (s\<lparr>insideComment := True, commentType := ''/*'',
           currentStatement := currentStatement s @ ''/*''\<rparr>, 1)
      else if startsWith remainingText ''--'' then
        (s\<lparr>insideComment := True, commentType := ''--'',
           currentStatement := currentStatement s @ ''--''\<rparr>, 1)
      else if \<not> insideFunction s \<and> \<not> insideProcedure s \<and> \<not> insideView s \<and> \<not> insideBlock s then
        (if startsWith remainingText ''CREATE FUNCTION''
            \<or> startsWith remainingText ''CREATE OR REPLACE FUNCTION'' then
           (s\<lparr>insideFunction := True, blockLevel := 0\<rparr>, 0)
         else if startsWith remainingText ''CREATE PROCEDURE''
            \<or> startsWith remainingText ''CREATE OR REPLACE PROCEDURE'' then
           (s\<lparr>insideProcedure := True, blockLevel := 0\<rparr>, 0)
         else if startsWith remainingText ''CREATE VIEW''
            \<or> startsWith remainingText ''CREATE OR REPLACE VIEW'' then
           (s\<lparr>insideView := True\<rparr>, 0)
         else
           (case matchKeyword remainingText beginKeywords of
              None \<Rightarrow> (s, 0)
            | Some matchedBegin \<Rightarrow>
                (let s = s\<lparr>insideBlock := True, blockLevel := 1\<rparr> in
                 if length matchedBegin > length ''BEGIN'' then
                   (s\<lparr>currentStatement :=
                        currentStatement s @ drop (length ''BEGIN'') matchedBegin\<rparr>,
                    length matchedBegin - length ''BEGIN'')
                 else (s, 0))))
      else (s, 0))"

text \<open>
  The second \<open>if\<close> chain (block depth, statement ends) together with the \<open>index++\<close> that
  closes the body; the two \<open>continue\<close> branches skip that increment. The second component
  is the total amount added to \<open>index\<close> in this iteration.
\<close>

definition second_chain :: "char \<Rightarrow> string \<Rightarrow> sql_state \<times> nat \<Rightarrow> sql_state \<times> nat" where
  "second_chain char remainingText p =
     (let s = fst p; moved = snd p in
      if insideFunction s \<or> insideProcedure s \<or> insideBlock s then
        (case matchKeyword remainingText beginKeywords of
           Some matchedBegin \<Rightarrow>
             (s\<lparr>blockLevel := blockLevel s + 1,
                currentStatement := currentStatement s @ tl matchedBegin\<rparr>,
              moved + (length matchedBegin - 1))
         | None \<Rightarrow>
             (case matchKeyword remainingText endKeywords of
                None \<Rightarrow> (s, moved + 1)
              | Some matchedEnd \<Rightarrow>
                  if length matchedEnd = length ''END'' \<or> length matchedEnd = length ''END;'' then
                    (let s = s\<lparr>blockLevel := blockLevel s - 1,
                                currentStatement := currentStatement s @ tl matchedEnd\<rparr> in
                     (if blockLevel s = 0 then
                        (if insideFunction s then push_statement (s\<lparr>insideFunction := False\<rparr>)
                         else if insideProcedure s then
                           push_statement (s\<lparr>insideProcedure := False\<rparr>)
                         else if insideBlock s then push_statement (s\<lparr>insideBlock := False\<rparr>)
                         else s)
                      else s,
                      moved + (length matchedEnd - 1)))
                  else (s, moved + 1)))
      else if insideView s then
        (if char = CHR '';'' then (push_statement (s\<lparr>insideView := False\<rparr>), moved + 1)
         else (s, moved + 1))
      else if char = CHR '';'' \<and> \<not> insideFunction s \<and> \<not> insideProcedure s
              \<and> \<not> insideView s \<and> \<not> insideBlock s then
        (push_statement s, moved + 1)
      else (s, moved + 1))"

definition sql_step :: "string \<Rightarrow> string \<Rightarrow> sql_state \<Rightarrow> sql_state \<times> nat" where
  "sql_step rest remainingText s =
     (let char = hd rest;
          s = s\<lparr>currentStatement := currentStatement s @ [char]\<rparr>
      in second_chain char remainingText (first_chain char rest remainingText s))"

text \<open>The \<open>while (index < text.length)\<close> loop: the arguments are \<open>text\<close> and \<open>upperText\<close>
  from \<open>index\<close> on.\<close>

function splitSQL_loop :: "string \<Rightarrow> string \<Rightarrow> sql_state \<Rightarrow> sql_state" where
  "splitSQL_loop rest remainingText s =
     (if rest = [] then s
      else splitSQL_loop (drop (snd (sql_step rest remainingText s)) rest)
             (drop (snd (sql_step rest remainingText s)) remainingText)
             (fst (sql_step rest remainingText s)))"
  by pat_completeness auto
termination
proof (relation "measure (\<lambda>(rest, u, s). length rest)")
  show "wf (measure (\<lambda>(rest, u, s). length rest))" by simp
next
  fix rest remainingText :: string and s :: sql_state
  assume nonempty: "rest \<noteq> []"
  have mem: "matchKeyword t ks = Some k \<Longrightarrow> k \<in> set ks" for t ks k
    unfolding matchKeyword_def by (induction ks) (auto split: if_splits)
  have b: "matchKeyword t beginKeywords = Some k \<Longrightarrow> 0 < length k - 1" for t k
    by (drule mem) (auto simp: beginKeywords_def)
  have e: "matchKeyword t endKeywords = Some k \<Longrightarrow> 0 < length k - 1" for t k
    by (drule mem) (auto simp: endKeywords_def)
  have "0 < snd (sql_step rest remainingText s)"
    unfolding sql_step_def second_chain_def Let_def
    by (auto split: option.splits dest: b e)
  with nonempty
  show "((drop (snd (sql_step rest remainingText s)) rest,
          drop (snd (sql_step rest remainingText s)) remainingText,
          fst (sql_step rest remainingText s)),
         rest, remainingText, s) \<in> measure (\<lambda>(rest, u, s). length rest)"
    by simp
qed

declare splitSQL_loop.simps [simp del]

definition splitSQLStatements :: "string \<Rightarrow> string list" where
  "splitSQLStatements text =
     (let s = splitSQL_loop text (toUpperCase text) sql_init in
      if trim (currentStatement s) \<noteq> [] then statements s @ [trim (currentStatement s)]
      else statements s)"

section \<open>\<open>SQLSchemaSplitter.splitText\<close>\<close>

text \<open>The loop over the lines of an oversized statement that is not an \<open>INSERT\<close>.\<close>

fun line_loop :: "nat \<Rightarrow> string list \<Rightarrow> string \<Rightarrow> string list \<Rightarrow> string list" where
  "line_loop maxCharacters [] currentSplit splits =
     (if currentSplit \<noteq> [] then splits @ [currentSplit] else splits)"
| "line_loop maxCharacters (line # lines) currentSplit splits =
     (if length currentSplit + length line + 1 \<le> maxCharacters then
        line_loop maxCharacters lines
          (currentSplit @ (if currentSplit \<noteq> [] then [CHR 0x0A] else []) @ line) splits
      else line_loop maxCharacters lines line
             (if currentSplit \<noteq> [] then splits @ [currentSplit] else splits))"

definition split_statement :: "nat \<Rightarrow> string \<Rightarrow> string list" where
  "split_statement maxCharacters statement =
     (if str_includes (toUpperCase statement) ''INSERT INTO''
         \<and> str_includes (toUpperCase statement) ''VALUES'' then
        splitInsertStatement maxCharacters statement
      else if length statement \<le> maxCharacters then [statement]
      else line_loop maxCharacters (split_lines statement []) [] [])"

definition splitText :: "nat \<Rightarrow> string \<Rightarrow> string list" where
  "splitText maxCharacters text =
     concat (map (split_statement maxCharacters) (splitSQLStatements text))"

section \<open>Statement terminators as the specification counts them\<close>

text \<open>
  Written from the words of the specification: a \<open>;\<close> delimits a statement when it lies
  outside string literals (single or double quoted, a backslash escaping the next
  character), line comments and block comments. The function counts those \<open>;\<close> in a text
  without compound constructs.
\<close>

datatype lex_mode = Code | Quoted char | LineComment | BlockComment

fun spec_terminators :: "lex_mode \<Rightarrow> string \<Rightarrow> nat" where
  "spec_terminators m [] = 0"
| "spec_terminators Code (c # cs) =
     (if c = CHR '';'' then Suc (spec_terminators Code cs)
      else if c = CHR 0x27 \<or> c = CHR 0x22 then spec_terminators (Quoted c) cs
      else if startsWith (c # cs) ''--'' then spec_terminators LineComment (tl cs)
      else if startsWith (c # cs) ''/*'' then spec_terminators BlockComment (tl cs)
      else spec_terminators Code cs)"
| "spec_terminators (Quoted q) (c # cs) =
     (if c = CHR 0x5C then spec_terminators (Quoted q) (tl cs)
      else if c = q then spec_terminators Code cs
      else spec_terminators (Quoted q) cs)"
| "spec_terminators LineComment (c # cs) =
     (if c = CHR 0x0A \<or> c = CHR 0x0D then spec_terminators Code cs
      else spec_terminators LineComment cs)"
| "spec_terminators BlockComment (c # cs) =
     (if startsWith (c # cs) ''*/'' then spec_terminators Code (tl cs)
      else spec_terminators BlockComment cs)"

section \<open>Texts that the tokenizer only cuts at semicolons\<close>

text \<open>
  A position of the text at which no comment and no compound construct starts; a text is
  plain when it has no quote character and no such start at any position. Cutting a plain
  text at every \<open>;\<close> gives the statements (each trimmed) and the text after the last
  \<open>;\<close>.
\<close>

definition no_construct_start :: "string \<Rightarrow> bool" where
  "no_construct_start remainingText =
     (\<not> startsWith remainingText ''/*'' \<and> \<not> startsWith remainingText ''--''
      \<and> \<not> startsWith remainingText ''CREATE FUNCTION''
      \<and> \<not> startsWith remainingText ''CREATE OR REPLACE FUNCTION''
      \<and> \<not> startsWith remainingText ''CREATE PROCEDURE''
      \<and> \<not> startsWith remainingText ''CREATE OR REPLACE PROCEDURE''
      \<and> \<not> startsWith remainingText ''CREATE VIEW''
      \<and> \<not> startsWith remainingText ''CREATE OR REPLACE VIEW''
      \<and> matchKeyword remainingText beginKeywords = None)"

fun plain_sql :: "string \<Rightarrow> bool" where
  "plain_sql [] = True"
| "plain_sql (c # cs) =
     (c \<noteq> CHR 0x27 \<and> c \<noteq> CHR 0x22 \<and> no_construct_start (toUpperCase (c # cs)) \<and> plain_sql cs)"

fun cut_at_semicolons :: "string \<Rightarrow> string \<Rightarrow> string list \<times> string" where
  "cut_at_semicolons cur [] = ([], cur)"
| "cut_at_semicolons cur (c # cs) =
     (if c = CHR '';'' then
        (trim (cur @ [c]) # fst (cut_at_semicolons [] cs), snd (cut_at_semicolons [] cs))
      else cut_at_semicolons (cur @ [c]) cs)"

definition top_level :: "sql_state \<Rightarrow> bool" where
  "top_level s =
     (\<not> insideString s \<and> \<not> insideComment s \<and> \<not> insideFunction s \<and> \<not> insideProcedure s
      \<and> \<not> insideView s \<and> \<not> insideBlock s)"

section \<open>File pattern filter (\<open>globToSqlPattern\<close>, \<open>createFilePatternCondition\<close>)\<close>

text \<open>\<open>pattern.replace(/\*\*/g, '%')\<close>: every non-overlapping \<open>**\<close>, from the left.\<close>

fun replace_double_star :: "string \<Rightarrow> string" where
  "replace_double_star (a # b # cs) =
     (if a = CHR ''*'' \<and> b = CHR ''*'' then CHR ''%'' # replace_double_star cs
      else a # replace_double_star (b # cs))"
| "replace_double_star cs = cs"

text \<open>\<open>sqlPattern.replace(/\*/g, '%')\<close>.\<close>

definition replace_star :: "string \<Rightarrow> string" where
  "replace_star s = map (\<lambda>c. if c = CHR ''*'' then CHR ''%'' else c) s"

definition globToSqlPattern :: "string \<Rightarrow> string" where
  "globToSqlPattern pattern = replace_star (replace_double_star pattern)"

text \<open>
  The function returns the text of a condition for the \<open>WHERE\<close> clause of the scan. The
  model keeps the structure of that text: an atom is \<open>f.path LIKE 'p'\<close> or
  \<open>f.path NOT LIKE 'p'\<close>, the include atoms are joined by \<open>OR\<close>, the exclude atoms by
  \<open>AND\<close>, and each non-empty group is appended with \<open>AND\<close>. (The text is the structure as
  long as no pattern contains a quote character.)
\<close>

datatype path_cond =
    PathLike string
  | PathNotLike string
  | AnyOf "path_cond list"
  | AllOf "path_cond list"

definition createFilePatternCondition ::
  "string list option \<Rightarrow> string list option \<Rightarrow> path_cond list" where
  "createFilePatternCondition includePatterns excludePatterns =
     (case includePatterns of
        None \<Rightarrow> []
      | Some ps \<Rightarrow>
          if length ps > 0 then [AnyOf (map (\<lambda>pattern. PathLike (globToSqlPattern pattern)) ps)]
          else [])
     @
     (case excludePatterns of
        None \<Rightarrow> []
      | Some ps \<Rightarrow>
          if length ps > 0 then [AllOf (map (\<lambda>pattern. PathNotLike (globToSqlPattern pattern)) ps)]
          else [])"

text \<open>
  The store's \<open>LIKE\<close> operator (SQLite): \<open>%\<close> matches any sequence of zero or more
  characters, \<open>_\<close> matches any single character, any other character matches itself
  without regard to the case of ASCII letters.
\<close>

fun sql_like :: "string \<Rightarrow> string \<Rightarrow> bool" where
  "sql_like [] t = (t = [])"
| "sql_like (p # ps) [] = (p = CHR ''%'' \<and> sql_like ps [])"
| "sql_like (p # ps) (c # cs) =
     (if p = CHR ''%'' then sql_like ps (c # cs) \<or> sql_like (p # ps) cs
      else (p = CHR ''_'' \<or> upper_char p = upper_char c) \<and> sql_like ps cs)"

fun cond_holds :: "path_cond \<Rightarrow> string \<Rightarrow> bool" where
  "cond_holds (PathLike p) path = sql_like p path"
| "cond_holds (PathNotLike p) path = (\<not> sql_like p path)"
| "cond_holds (AnyOf cs) path = list_ex (\<lambda>c. cond_holds c path) cs"
| "cond_holds (AllOf cs) path = list_all (\<lambda>c. cond_holds c path) cs"

definition conds_hold :: "path_cond list \<Rightarrow> string \<Rightarrow> bool" where
  "conds_hold cs path = list_all (\<lambda>c. cond_holds c path) cs"

text \<open>
  The text of the condition, as the function builds it: each pattern is pasted between two
  quote characters. The engine reads the text as the structure above when no pattern
  contains a quote or a NUL character; the model describes the scan for such patterns, of
  a length and number far below the limits of the engine.
\<close>

fun join_with :: "string \<Rightarrow> string list \<Rightarrow> string" where
  "join_with sep [] = []"
| "join_with sep [x] = x"
| "join_with sep (x # y # ys) = x @ sep @ join_with sep (y # ys)"

fun atom_sql :: "path_cond \<Rightarrow> string" where
  "atom_sql (PathLike p) = ''f.path LIKE '' @ [CHR 0x27] @ p @ [CHR 0x27]"
| "atom_sql (PathNotLike p) = ''f.path NOT LIKE '' @ [CHR 0x27] @ p @ [CHR 0x27]"
| "atom_sql (AnyOf cs) = '' AND ('' @ join_with '' OR '' (map atom_sql cs) @ '')''"
| "atom_sql (AllOf cs) = '' AND ('' @ join_with '' AND '' (map atom_sql cs) @ '')''"

definition condition_sql :: "path_cond list \<Rightarrow> string" where
  "condition_sql cs = concat (map atom_sql cs)"

definition plain_pattern :: "string \<Rightarrow> bool" where
  "plain_pattern p =
     (list_all (\<lambda>c. c \<noteq> CHR 0x27 \<and> c \<noteq> CHR 0x00) p \<and> int (length p) \<le> 10000)"

fun sql_intact :: "path_cond \<Rightarrow> bool" where
  "sql_intact (PathLike p) = plain_pattern p"
| "sql_intact (PathNotLike p) = plain_pattern p"
| "sql_intact (AnyOf cs) = (list_all sql_intact cs \<and> int (length cs) \<le> 100)"
| "sql_intact (AllOf cs) = (list_all sql_intact cs \<and> int (length cs) \<le> 100)"

text \<open>
  The glob semantics of the specification, written from its words: \<open>**\<close> matches any
  sequence of characters (any path depth), \<open>*\<close> matches any sequence of characters other
  than \<open>/\<close> (within one path segment), every other character matches itself.
\<close>

fun spec_glob_match :: "string \<Rightarrow> string \<Rightarrow> bool" where
  "spec_glob_match [] t = (t = [])"
| "spec_glob_match (p # ps) [] =
     (p = CHR ''*'' \<and> spec_glob_match ps [])"
| "spec_glob_match (p # ps) (c # cs) =
     (if p = CHR ''*'' then
        (if ps \<noteq> [] \<and> hd ps = CHR ''*'' then
           spec_glob_match (tl ps) (c # cs) \<or> spec_glob_match (p # ps) cs
         else spec_glob_match ps (c # cs) \<or> (c \<noteq> CHR ''/'' \<and> spec_glob_match (p # ps) cs))
      else p = c \<and> spec_glob_match ps cs)"

definition spec_path_selected :: "string list \<Rightarrow> string list \<Rightarrow> string \<Rightarrow> bool" where
  "spec_path_selected includePatterns excludePatterns path =
     ((includePatterns = [] \<or> list_ex (\<lambda>p. spec_glob_match p path) includePatterns)
      \<and> list_all (\<lambda>p. \<not> spec_glob_match p path) excludePatterns)"

section \<open>The store (db.ts)\<close>

text \<open>
  The tables of \<open>SCHEMA_SQL\<close> as lists of rows. A vector is stored as JSON text; the model
  keeps the list of numbers it denotes, as exact reals. The \<open>AUTOINCREMENT\<close> counters are
  part of the state. Time stamps are left out.
\<close>

datatype branch_status = BranchPending | FilesProcessed | EmbeddingsGenerated

datatype file_status = Pending | Fetched | Ingested | Done

record repository_row =
  r_id :: nat
  r_name :: string
  r_path :: string

record branch_row =
  b_id :: nat
  b_name :: string
  b_repository_id :: nat
  b_last_commit_sha :: string
  b_status :: branch_status

record file_row =
  f_id :: nat
  f_repository_id :: nat
  f_path :: string
  f_name :: string
  f_sha :: string
  f_status :: file_status

record chunk_row =
  fc_id :: nat
  fc_file_id :: nat
  fc_content :: string
  fc_chunk_number :: nat
  fc_embedding :: "real list option"
  fc_model_version :: "string option"
  fc_token_count :: "nat option"

record database =
  repository_tbl :: "repository_row list"
  branch_tbl :: "branch_row list"
  file_tbl :: "file_row list"
  branch_file_association :: "(nat \<times> nat) list"
  file_chunk :: "chunk_row list"
  repository_seq :: nat
  branch_seq :: nat
  file_seq :: nat
  file_chunk_seq :: nat

text \<open>A thrown value. The handlers of the tools turn it into text by
  \<open>error instanceof Error ? error.message : String(error)\<close>.\<close>

datatype exn = Error string | Thrown string

fun error_text :: "exn \<Rightarrow> string" where
  "error_text (Error message) = message"
| "error_text (Thrown v) = v"

text \<open>
  \<open>dbInterface.transaction(cb)\<close>: the effects of \<open>cb\<close> are kept when it returns and undone
  when it throws; the exception is thrown on to the caller.
\<close>

definition transaction ::
  "(database \<Rightarrow> exn + database \<times> 'a) \<Rightarrow> database \<Rightarrow> database \<times> (exn + 'a)" where
  "transaction cb d =
     (case cb d of Inl e \<Rightarrow> (d, Inl e) | Inr (d', x) \<Rightarrow> (d', Inr x))"

subsection \<open>The statements that the tools run\<close>

text \<open>\<open>SELECT id FROM file WHERE repository_id = ? AND path = ? AND sha = ?\<close>\<close>

definition select_file :: "database \<Rightarrow> nat \<Rightarrow> string \<Rightarrow> string \<Rightarrow> file_row option" where
  "select_file d repoId path sha =
     List.find (\<lambda>f. f_repository_id f = repoId \<and> f_path f = path \<and> f_sha f = sha) (file_tbl d)"

text \<open>\<open>SELECT 1 FROM branch_file_association WHERE branch_id = ? AND file_id = ?\<close>\<close>

definition association_exists :: "database \<Rightarrow> nat \<Rightarrow> nat \<Rightarrow> bool" where
  "association_exists d branchId fileId = ((branchId, fileId) \<in> set (branch_file_association d))"

text \<open>\<open>INSERT INTO branch_file_association (branch_id, file_id) VALUES (?, ?)\<close>, with the
  primary key and the two foreign keys of the table.\<close>

definition insert_association :: "database \<Rightarrow> nat \<Rightarrow> nat \<Rightarrow> exn + database" where
  "insert_association d branchId fileId =
     (if (branchId, fileId) \<in> set (branch_file_association d) then
        Inl (Error ''UNIQUE constraint failed: branch_file_association.branch_id, branch_file_association.file_id'')
      else if branchId \<in> set (map b_id (branch_tbl d)) \<and> fileId \<in> set (map f_id (file_tbl d)) then
        Inr (d\<lparr>branch_file_association := branch_file_association d @ [(branchId, fileId)]\<rparr>)
      else Inl (Error ''FOREIGN KEY constraint failed''))"

text \<open>\<open>INSERT INTO file (repository_id, path, sha, name, status) VALUES (?, ?, ?, ?, 'pending')\<close>;
  the second component is \<open>lastInsertRowid\<close>.\<close>

definition insert_file ::
  "database \<Rightarrow> nat \<Rightarrow> string \<Rightarrow> string \<Rightarrow> string \<Rightarrow> exn + database \<times> nat" where
  "insert_file d repoId path sha name =
     (if select_file d repoId path sha \<noteq> None then
        Inl (Error ''UNIQUE constraint failed: file.repository_id, file.path, file.sha'')
      else if repoId \<in> set (map r_id (repository_tbl d)) then
        Inr (d\<lparr>file_tbl := file_tbl d @
                   [\<lparr>f_id = Suc (file_seq d), f_repository_id = repoId, f_path = path,
                     f_name = name, f_sha = sha, f_status = Pending\<rparr>],
                file_seq := Suc (file_seq d)\<rparr>,
             Suc (file_seq d))
      else Inl (Error ''FOREIGN KEY constraint failed''))"

text \<open>\<open>UPDATE file SET sha = ?, status = 'pending' WHERE id = ?\<close>; it fails when another
  row of the repository already has the path at the new \<open>sha\<close>.\<close>

definition update_file_sha :: "database \<Rightarrow> nat \<Rightarrow> string \<Rightarrow> exn + database" where
  "update_file_sha d fileId sha =
     (if list_ex (\<lambda>f. f_id f = fileId \<and>
                    list_ex (\<lambda>g. f_id g \<noteq> fileId \<and> f_repository_id g = f_repository_id f
                                 \<and> f_path g = f_path f \<and> f_sha g = sha) (file_tbl d))
           (file_tbl d) then
        Inl (Error ''UNIQUE constraint failed: file.repository_id, file.path, file.sha'')
      else
        Inr (d\<lparr>file_tbl :=
                 map (\<lambda>f. if f_id f = fileId then f\<lparr>f_sha := sha, f_status := Pending\<rparr> else f)
                   (file_tbl d)\<rparr>))"

text \<open>\<open>UPDATE file SET status = ? WHERE id = ?\<close>\<close>

definition update_file_status :: "database \<Rightarrow> nat \<Rightarrow> file_status \<Rightarrow> database" where
  "update_file_status d fileId st =
     d\<lparr>file_tbl := map (\<lambda>f. if f_id f = fileId then f\<lparr>f_status := st\<rparr> else f) (file_tbl d)\<rparr>"

text \<open>\<open>DELETE FROM branch_file_association WHERE branch_id = ? AND file_id = ?\<close>\<close>

definition delete_association :: "database \<Rightarrow> nat \<Rightarrow> nat \<Rightarrow> database" where
  "delete_association d branchId fileId =
     d\<lparr>branch_file_association :=
         filter (\<lambda>a. a \<noteq> (branchId, fileId)) (branch_file_association d)\<rparr>"

text \<open>\<open>SELECT 1 FROM branch_file_association WHERE file_id = ? LIMIT 1\<close>\<close>

definition file_still_in_use :: "database \<Rightarrow> nat \<Rightarrow> bool" where
  "file_still_in_use d fileId = list_ex (\<lambda>a. snd a = fileId) (branch_file_association d)"

text \<open>\<open>DELETE FROM file_chunk WHERE file_id = ?\<close>\<close>

definition delete_chunks :: "database \<Rightarrow> nat \<Rightarrow> database" where
  "delete_chunks d fileId = d\<lparr>file_chunk := filter (\<lambda>c. fc_file_id c \<noteq> fileId) (file_chunk d)\<rparr>"

text \<open>\<open>DELETE FROM file WHERE id = ?\<close>, with the cascade to the associations and chunks of
  the file.\<close>

definition delete_file :: "database \<Rightarrow> nat \<Rightarrow> database" where
  "delete_file d fileId =
     d\<lparr>file_tbl := filter (\<lambda>f. f_id f \<noteq> fileId) (file_tbl d),
       branch_file_association := filter (\<lambda>a. snd a \<noteq> fileId) (branch_file_association d),
       file_chunk := filter (\<lambda>c. fc_file_id c \<noteq> fileId) (file_chunk d)\<rparr>"

text \<open>\<open>UPDATE branch SET status = ? WHERE id = ?\<close>\<close>

definition update_branch_status :: "database \<Rightarrow> nat \<Rightarrow> branch_status \<Rightarrow> database" where
  "update_branch_status d branchId st =
     d\<lparr>branch_tbl := map (\<lambda>b. if b_id b = branchId then b\<lparr>b_status := st\<rparr> else b) (branch_tbl d)\<rparr>"

text \<open>The files of a branch: \<open>file f JOIN branch_file_association bfa ON f.id = bfa.file_id
  WHERE bfa.branch_id = ?\<close>.\<close>

definition branch_files :: "database \<Rightarrow> nat \<Rightarrow> file_row list" where
  "branch_files d branchId =
     concat (map (\<lambda>f. map (\<lambda>a. f)
                         (filter (\<lambda>a. snd a = f_id f \<and> fst a = branchId)
                            (branch_file_association d)))
              (file_tbl d))"

text \<open>The chunks of a branch, each with its file: \<open>file_chunk fc JOIN file f ON
  fc.file_id = f.id JOIN branch_file_association bfa ON f.id = bfa.file_id WHERE
  bfa.branch_id = ?\<close>.\<close>

definition branch_chunks :: "database \<Rightarrow> nat \<Rightarrow> (chunk_row \<times> file_row) list" where
  "branch_chunks d branchId =
     concat (map (\<lambda>c. map (\<lambda>f. (c, f))
                         (filter (\<lambda>f. f_id f = fc_file_id c) (branch_files d branchId)))
              (file_chunk d))"

section \<open>The synchronizer (processFiles.ts, the transaction of \<open>processFiles\<close>)\<close>

text \<open>An entry of the listing that \<open>getRepositoryFiles\<close> returns.\<close>

record repository_file =
  rf_path :: string
  rf_name :: string
  rf_sha :: string

text \<open>A row of \<open>existingFiles\<close>: \<open>SELECT f.id, f.path, f.sha\<close>.\<close>

record existing_file =
  ef_id :: nat
  ef_path :: string
  ef_sha :: string

record file_to_process =
  ftp_id :: nat
  ftp_path :: string
  ftp_name :: string

definition existingFiles :: "database \<Rightarrow> nat \<Rightarrow> existing_file list" where
  "existingFiles d branchId =
     map (\<lambda>f. \<lparr>ef_id = f_id f, ef_path = f_path f, ef_sha = f_sha f\<rparr>) (branch_files d branchId)"

text \<open>A JavaScript \<open>Map\<close> keeps its keys in the order of their first insertion.\<close>

fun map_set :: "('k \<times> 'v) list \<Rightarrow> 'k \<Rightarrow> 'v \<Rightarrow> ('k \<times> 'v) list" where
  "map_set [] k v = [(k, v)]"
| "map_set ((k', v') # m) k v = (if k' = k then (k, v) # m else (k', v') # map_set m k v)"

definition map_delete :: "('k \<times> 'v) list \<Rightarrow> 'k \<Rightarrow> ('k \<times> 'v) list" where
  "map_delete m k = filter (\<lambda>kv. fst kv \<noteq> k) m"

text \<open>
  The state of the transaction body. The source counts the files of each kind
  (\<open>newFiles\<close>, \<open>updatedFiles\<close>, \<open>unchangedFiles\<close>, \<open>removedFiles\<close>) for its log line; the
  model records, next to each counter, the paths that take the branch of the loop in
  which the kind is decided: \<open>new_paths\<close> for \<open>!existingFile\<close> (whether the file row is
  inserted or reused), \<open>updated_paths\<close> for a different \<open>sha\<close>, \<open>unchanged_paths\<close> for the
  same \<open>sha\<close>, \<open>removed_paths\<close> for what the second loop finds left in the map.
\<close>

record sync_state =
  db :: database
  existingFileMap :: "(string \<times> existing_file) list"
  filesToProcess :: "file_to_process list"
  newFiles :: nat
  updatedFiles :: nat
  unchangedFiles :: nat
  removedFiles :: nat
  new_paths :: "string list"
  updated_paths :: "string list"
  unchanged_paths :: "string list"
  removed_paths :: "string list"

definition push_file :: "sync_state \<Rightarrow> nat \<Rightarrow> repository_file \<Rightarrow> sync_state" where
  "push_file st fileId file =
     st\<lparr>filesToProcess := filesToProcess st @
          [\<lparr>ftp_id = fileId, ftp_path = rf_path file, ftp_name = rf_name file\<rparr>]\<rparr>"

text \<open>The body of \<open>for (const file of files)\<close>.\<close>

definition sync_file :: "nat \<Rightarrow> nat \<Rightarrow> repository_file \<Rightarrow> sync_state \<Rightarrow> exn + sync_state" where
  "sync_file repoId branchId file st0 =
     (let existingFile = map_of (existingFileMap st0) (rf_path file);
          st = st0\<lparr>existingFileMap := map_delete (existingFileMap st0) (rf_path file)\<rparr>
      in case existingFile of
           None \<Rightarrow>
             (let st = st\<lparr>new_paths := new_paths st @ [rf_path file]\<rparr> in
              case select_file (db st) repoId (rf_path file) (rf_sha file) of
                Some existingFileInDB \<Rightarrow>
                  (if association_exists (db st) branchId (f_id existingFileInDB) then
                     Inr (push_file st (f_id existingFileInDB) file)
                   else
                     (case insert_association (db st) branchId (f_id existingFileInDB) of
                        Inl e \<Rightarrow> Inl e
                      | Inr d \<Rightarrow> Inr (push_file (st\<lparr>db := d\<rparr>) (f_id existingFileInDB) file)))
              | None \<Rightarrow>
                  (case insert_file (db st) repoId (rf_path file) (rf_sha file) (rf_name file) of
                     Inl e \<Rightarrow> Inl e
                   | Inr (d, fileId) \<Rightarrow>
                       (case insert_association d branchId fileId of
                          Inl e \<Rightarrow> Inl e
                        | Inr d' \<Rightarrow>
                            Inr (push_file (st\<lparr>db := d', newFiles := newFiles st + 1\<rparr>) fileId file))))
         | Some ex \<Rightarrow>
             (if ef_sha ex \<noteq> rf_sha file then
                (case update_file_sha (db st) (ef_id ex) (rf_sha file) of
                   Inl e \<Rightarrow> Inl e
                 | Inr d \<Rightarrow>
                     Inr (push_file
                            (st\<lparr>db := d, updatedFiles := updatedFiles st + 1,
                                updated_paths := updated_paths st @ [rf_path file]\<rparr>)
                            (ef_id ex) file))
              else
                Inr (st\<lparr>unchangedFiles := unchangedFiles st + 1,
                        unchanged_paths := unchanged_paths st @ [rf_path file]\<rparr>)))"

fun sync_files :: "nat \<Rightarrow> nat \<Rightarrow> repository_file list \<Rightarrow> sync_state \<Rightarrow> exn + sync_state" where
  "sync_files repoId branchId [] st = Inr st"
| "sync_files repoId branchId (file # files) st =
     (case sync_file repoId branchId file st of
        Inl e \<Rightarrow> Inl e
      | Inr st' \<Rightarrow> sync_files repoId branchId files st')"

text \<open>The body of \<open>for (const [path, file] of existingFileMap.entries())\<close>.\<close>

definition remove_file :: "nat \<Rightarrow> string \<times> existing_file \<Rightarrow> sync_state \<Rightarrow> sync_state" where
  "remove_file branchId entry st =
     (let d = delete_association (db st) branchId (ef_id (snd entry));
          d = (if file_still_in_use d (ef_id (snd entry)) then d
               else delete_file (delete_chunks d (ef_id (snd entry))) (ef_id (snd entry)))
      in st\<lparr>db := d, removedFiles := removedFiles st + 1,
             removed_paths := removed_paths st @ [fst entry]\<rparr>)"

definition sync_init :: "database \<Rightarrow> nat \<Rightarrow> sync_state" where
  "sync_init d branchId =
     \<lparr>db = d,
      existingFileMap = fold (\<lambda>file m. map_set m (ef_path file) file) (existingFiles d branchId) [],
      filesToProcess = [], newFiles = 0, updatedFiles = 0, unchangedFiles = 0, removedFiles = 0,
      new_paths = [], updated_paths = [], unchanged_paths = [], removed_paths = []\<rparr>"

text \<open>The function \<open>processFiles(db)\<close> that is run as one transaction.\<close>

definition processFiles_body ::
  "nat \<Rightarrow> nat \<Rightarrow> repository_file list \<Rightarrow> database \<Rightarrow> exn + sync_state" where
  "processFiles_body repoId branchId files d =
     (case sync_files repoId branchId files (sync_init d branchId) of
        Inl e \<Rightarrow> Inl e
      | Inr st \<Rightarrow> Inr (fold (remove_file branchId) (existingFileMap st) st))"

text \<open>The kind of a listing entry with respect to a lookup of the files that the branch
  had before.\<close>

definition is_new :: "(string \<times> existing_file) list \<Rightarrow> repository_file \<Rightarrow> bool" where
  "is_new m f = (map_of m (rf_path f) = None)"

definition is_updated :: "(string \<times> existing_file) list \<Rightarrow> repository_file \<Rightarrow> bool" where
  "is_updated m f = (case map_of m (rf_path f) of None \<Rightarrow> False | Some e \<Rightarrow> ef_sha e \<noteq> rf_sha f)"

definition is_unchanged :: "(string \<times> existing_file) list \<Rightarrow> repository_file \<Rightarrow> bool" where
  "is_unchanged m f = (case map_of m (rf_path f) of None \<Rightarrow> False | Some e \<Rightarrow> ef_sha e = rf_sha f)"

text \<open>What the loop body does to the store for an entry whose path is not in the lookup:
  a file row of the repository with the same path and \<open>sha\<close> is reused and only the
  association is added; otherwise a row with status \<open>pending\<close> is inserted and
  associated.\<close>

definition new_file_effect ::
  "nat \<Rightarrow> nat \<Rightarrow> repository_file \<Rightarrow> sync_state \<Rightarrow> sync_state \<Rightarrow> bool" where
  "new_file_effect repoId branchId file s s' =
     (case select_file (db s) repoId (rf_path file) (rf_sha file) of
        Some existing \<Rightarrow>
          file_tbl (db s') = file_tbl (db s) \<and> file_chunk (db s') = file_chunk (db s)
          \<and> set (branch_file_association (db s'))
                = insert (branchId, f_id existing) (set (branch_file_association (db s)))
          \<and> filesToProcess s' = filesToProcess s @
                [\<lparr>ftp_id = f_id existing, ftp_path = rf_path file, ftp_name = rf_name file\<rparr>]
      | None \<Rightarrow>
          file_tbl (db s') = file_tbl (db s) @
             [\<lparr>f_id = Suc (file_seq (db s)), f_repository_id = repoId, f_path = rf_path file,
               f_name = rf_name file, f_sha = rf_sha file, f_status = Pending\<rparr>]
          \<and> file_chunk (db s') = file_chunk (db s)
          \<and> branch_file_association (db s')
                = branch_file_association (db s) @ [(branchId, Suc (file_seq (db s)))]
          \<and> filesToProcess s' = filesToProcess s @
                [\<lparr>ftp_id = Suc (file_seq (db s)), ftp_path = rf_path file, ftp_name = rf_name file\<rparr>])"

section \<open>Collaborators and payloads\<close>

text \<open>What a tool returns: its success value or \<open>{error: {message}}\<close>.\<close>

datatype 'a payload = Output 'a | ErrorPayload string

text \<open>
  What reading and chunking a file gives in \<open>processFileContents\<close>: the file does not exist,
  reading or splitting throws, or \<open>splitDocument\<close> returns documents, of which the
  \<open>pageContent\<close> is kept.
\<close>

datatype file_read = Missing | ReadFails exn | Chunks "string list"

text \<open>A row of the scan of the retrieval engine, and which of its two statements is run.\<close>

record scan_row =
  sr_content :: string
  sr_path :: string
  sr_chunk_number :: nat
  sr_similarity :: "real option"

datatype scan_kind = FirstScan | RetryScan

text \<open>A row of \<open>SELECT fc.id, fc.content, f.id as file_id\<close>.\<close>

record pending_chunk =
  pc_id :: nat
  pc_content :: string
  pc_file_id :: nat

text \<open>
  The collaborators, as functions of the arguments of each call: the version-control
  client, the file system with the chunker of the text-splitter library, the embedder,
  the functions of the \<open>path\<close> module, and \<open>toLowerCase\<close> of the runtime. A call that throws
  returns the thrown value. Three more fields stand for what the model leaves to the engine
  of the store: \<open>sqlite_order\<close> is the order in which it hands the rows of a scan to the
  sorting (the order among rows of equal similarity is its own), \<open>sqlite_pending\<close> is the
  order in which it returns the chunks without vector to \<open>embedFiles\<close>, and \<open>sqlite_other\<close> is
  its answer to a scan whose text or arithmetic is outside what the model describes, given
  the statement, the text of the condition, the bound parameters and the store.
\<close>

record collaborators =
  clone :: "string \<Rightarrow> exn + string"
  head_branch :: "string \<Rightarrow> exn + string"
  checkout :: "string \<Rightarrow> string \<Rightarrow> exn option"
  revparse :: "string \<Rightarrow> string \<Rightarrow> exn + string"
  ls_tree :: "string \<Rightarrow> string \<Rightarrow> exn + repository_file list"
  read_chunks :: "string \<Rightarrow> string \<Rightarrow> file_read"
  generateOllamaEmbeddings :: "string list \<Rightarrow> exn + real list list"
  basename :: "string \<Rightarrow> string"
  js_toLowerCase :: "js_string \<Rightarrow> js_string"
  sqlite_order :: "database \<Rightarrow> scan_row list \<Rightarrow> scan_row list"
  sqlite_pending :: "database \<Rightarrow> pending_chunk list \<Rightarrow> pending_chunk list"
  sqlite_other ::
    "scan_kind \<Rightarrow> string \<Rightarrow> real list \<Rightarrow> nat \<Rightarrow> int \<Rightarrow> database \<Rightarrow> exn + scan_row list"

text \<open>An optional \<open>ProgressNotifier\<close>; \<open>sendProgress\<close> may throw.\<close>

type_synonym notifier = "(real \<Rightarrow> real \<Rightarrow> exn option) option"

definition sendProgress :: "notifier \<Rightarrow> real \<Rightarrow> real \<Rightarrow> exn option" where
  "sendProgress n progress tot = (case n of None \<Rightarrow> None | Some f \<Rightarrow> f progress tot)"

text \<open>The \<open>catch\<close> that closes the body of every tool.\<close>

definition catch_all :: "string \<Rightarrow> database \<times> (exn + 'a payload) \<Rightarrow> database \<times> (exn + 'a payload)" where
  "catch_all tool r =
     (case snd r of
        Inl e \<Rightarrow> (fst r, Inr (ErrorPayload (''Error executing '' @ tool @ '' tool: '' @ error_text e)))
      | Inr p \<Rightarrow> r)"

section \<open>\<open>getRepositoryFiles\<close> and \<open>processFileContents\<close> (processFiles.ts)\<close>

definition getRepositoryFiles :: "collaborators \<Rightarrow> string \<Rightarrow> string \<Rightarrow> exn + repository_file list" where
  "getRepositoryFiles env repoPath branchName =
     (case checkout env repoPath branchName of
        Some e \<Rightarrow> Inl e
      | None \<Rightarrow>
          (case revparse env repoPath branchName of
             Inl e \<Rightarrow> Inl e
           | Inr latestCommit \<Rightarrow> ls_tree env repoPath branchName))"

text \<open>\<open>file.path.split(".").pop()\<close>: the text after the last dot, the whole path when it
  has none.\<close>

definition last_segment :: "js_string \<Rightarrow> js_string" where
  "last_segment path = rev (takeWhile (\<lambda>u. u \<noteq> 0x2E) (rev path))"

text \<open>\<open>extension ? extensionToSplitter(extension) : "ignore"\<close>, where \<open>extension\<close> is the
  last segment in lower case.\<close>

definition split_type :: "(js_string \<Rightarrow> js_string) \<Rightarrow> js_string \<Rightarrow> string" where
  "split_type lower path =
     (let extension = lower (last_segment path) in
      if extension \<noteq> [] then extensionToSplitter lower extension else ''ignore'')"

text \<open>\<open>INSERT INTO file_chunk (file_id, content, chunk_number) VALUES (?, ?, ?)
  ON CONFLICT(file_id, chunk_number) DO NOTHING\<close>\<close>

definition insert_chunk_or_ignore :: "database \<Rightarrow> nat \<Rightarrow> string \<Rightarrow> nat \<Rightarrow> exn + database" where
  "insert_chunk_or_ignore d fileId content chunkNumber =
     (if list_ex (\<lambda>c. fc_file_id c = fileId \<and> fc_chunk_number c = chunkNumber) (file_chunk d) then
        Inr d
      else if fileId \<in> set (map f_id (file_tbl d)) then
        Inr (d\<lparr>file_chunk := file_chunk d @
                   [\<lparr>fc_id = Suc (file_chunk_seq d), fc_file_id = fileId, fc_content = content,
                     fc_chunk_number = chunkNumber, fc_embedding = None,
                     fc_model_version = None, fc_token_count = None\<rparr>],
                file_chunk_seq := Suc (file_chunk_seq d)\<rparr>)
      else Inl (Error ''FOREIGN KEY constraint failed''))"

text \<open>\<open>for (let i = 0; i < chunks.length; i++)\<close>, from index \<open>i\<close> on.\<close>

fun insert_chunks :: "database \<Rightarrow> nat \<Rightarrow> string list \<Rightarrow> nat \<Rightarrow> exn + database" where
  "insert_chunks d fileId [] i = Inr d"
| "insert_chunks d fileId (chunk # chunks) i =
     (case insert_chunk_or_ignore d fileId chunk (i + 1) of
        Inl e \<Rightarrow> Inl e
      | Inr d' \<Rightarrow> insert_chunks d' fileId chunks (i + 1))"

text \<open>The transaction that stores the chunks of one file and marks it \<open>fetched\<close>.\<close>

definition store_chunks :: "nat \<Rightarrow> string list \<Rightarrow> database \<Rightarrow> exn + database \<times> unit" where
  "store_chunks fileId chunks d =
     (case insert_chunks d fileId chunks 0 of
        Inl e \<Rightarrow> Inl e
      | Inr d' \<Rightarrow> Inr (update_file_status d' fileId Fetched, ()))"

text \<open>The body of \<open>for (const file of pendingFiles)\<close>; an exception in the \<open>try\<close> is logged
  and the loop goes on.\<close>

definition process_pending_file :: "collaborators \<Rightarrow> string \<Rightarrow> database \<Rightarrow> file_row \<Rightarrow> database" where
  "process_pending_file env repoPath d file =
     (if split_type (js_toLowerCase env) (units_of (f_path file)) \<noteq> ''ignore'' then
        (case read_chunks env repoPath (f_path file) of
           Missing \<Rightarrow> d
         | ReadFails e \<Rightarrow> d
         | Chunks chunks \<Rightarrow> fst (transaction (store_chunks (f_id file) chunks) d))
      else update_file_status d (f_id file) Done)"

definition processFileContents ::
  "collaborators \<Rightarrow> string \<Rightarrow> string \<Rightarrow> database \<Rightarrow> database \<times> (exn + unit)" where
  "processFileContents env branchName repoPath d =
     (case checkout env repoPath branchName of
        Some e \<Rightarrow> (d, Inl e)
      | None \<Rightarrow>
          (case List.find (\<lambda>r. r_path r = repoPath) (repository_tbl d) of
             None \<Rightarrow> (d, Inl (Error ''Cannot read properties of undefined (reading 'id')''))
           | Some repo \<Rightarrow>
               (case List.find (\<lambda>b. b_name b = branchName \<and> b_repository_id b = r_id repo)
                        (branch_tbl d) of
                  None \<Rightarrow> (d, Inl (Error ''Cannot read properties of undefined (reading 'id')''))
                | Some branch \<Rightarrow>
                    (let pendingFiles =
                           filter (\<lambda>f. f_status f = Pending) (branch_files d (b_id branch))
                     in (fold (\<lambda>file d. process_pending_file env repoPath d file) pendingFiles d,
                         Inr ())))))"

section \<open>\<open>processFiles\<close> (processFiles.ts)\<close>

record process_input =
  pi_repoLocalPath :: string
  pi_repoId :: nat
  pi_branchId :: nat
  pi_actualBranch :: string
  pi_needsUpdate :: bool

record process_output =
  po_needsUpdate :: bool
  po_filesToProcess :: "file_to_process list"

definition MAX_FILES_TO_PROCESS :: int where
  "MAX_FILES_TO_PROCESS = 1000000"

text \<open>\<open>xs.slice(0, n)\<close>\<close>

fun slice_to :: "int \<Rightarrow> 'a list \<Rightarrow> 'a list" where
  "slice_to n [] = []"
| "slice_to n (x # xs) = (if n \<le> 0 then [] else x # slice_to (n - 1) xs)"

text \<open>The part of the tool after the transaction: \<open>processFileContents\<close> and the update of
  the branch in their own \<open>try\<close>, whose \<open>catch\<close> only logs (so that a notifier that throws
  at the end of that \<open>try\<close> changes nothing).\<close>

definition process_contents_step :: "collaborators \<Rightarrow> process_input \<Rightarrow> database \<Rightarrow> database" where
  "process_contents_step env input d =
     (case processFileContents env (pi_actualBranch input) (pi_repoLocalPath input) d of
        (d', Inl e) \<Rightarrow> d'
      | (d', Inr u) \<Rightarrow> update_branch_status d' (pi_branchId input) FilesProcessed)"

definition processFiles ::
  "collaborators \<Rightarrow> notifier \<Rightarrow> process_input option \<Rightarrow> database
     \<Rightarrow> database \<times> (exn + process_output payload)" where
  "processFiles env progressNotifier input d =
     catch_all ''processFiles''
       (case input of
          None \<Rightarrow> (d, Inr (ErrorPayload ''Input parameters are required for processFiles tool''))
        | Some input \<Rightarrow>
            if \<not> pi_needsUpdate input then
              (d, Inr (Output \<lparr>po_needsUpdate = False, po_filesToProcess = []\<rparr>))
            else
              (case getRepositoryFiles env (pi_repoLocalPath input) (pi_actualBranch input) of
                 Inl e \<Rightarrow> (d, Inl e)
               | Inr files \<Rightarrow>
                   (case transaction
                           (\<lambda>d. case processFiles_body (pi_repoId input) (pi_branchId input) files d of
                                  Inl e \<Rightarrow> Inl e
                                | Inr st \<Rightarrow> Inr (db st, filesToProcess st)) d of
                      (d1, Inl e) \<Rightarrow> (d1, Inl e)
                    | (d1, Inr toProcess) \<Rightarrow>
                        (let limitedFiles = slice_to MAX_FILES_TO_PROCESS toProcess in
                         case sendProgress progressNotifier 0.33 1 of
                           Some e \<Rightarrow> (d1, Inl e)
                         | None \<Rightarrow>
                             (process_contents_step env input d1,
                              Inr (Output \<lparr>po_needsUpdate = True,
                                           po_filesToProcess = limitedFiles\<rparr>))))))"

section \<open>\<open>embedFiles\<close> (embedFiles.ts)\<close>

record embed_input =
  ei_repoLocalPath :: string
  ei_branchId :: nat

record embed_output =
  chunksProcessed :: nat

text \<open>The rows of \<open>SELECT fc.id, fc.content, f.id as file_id\<close> for the chunks of a branch
  that have no vector, in the order of the tables.\<close>

definition chunks_without_embeddings :: "database \<Rightarrow> nat \<Rightarrow> pending_chunk list" where
  "chunks_without_embeddings d branchId =
     map (\<lambda>cf. \<lparr>pc_id = fc_id (fst cf), pc_content = fc_content (fst cf), pc_file_id = f_id (snd cf)\<rparr>)
       (filter (\<lambda>cf. fc_embedding (fst cf) = None) (branch_chunks d branchId))"

definition BATCH_SIZE :: nat where
  "BATCH_SIZE = 100"

definition EMBEDDING_MODEL :: string where
  "EMBEDDING_MODEL = ''unclemusclez/jina-embeddings-v2-base-code''"

text \<open>\<open>UPDATE file_chunk SET embedding = ?, model_version = ? WHERE id = ?\<close>. A vector that
  is missing (\<open>JSON.stringify(undefined)\<close>) is bound as \<open>NULL\<close>.\<close>

definition update_chunk_embedding :: "database \<Rightarrow> nat \<Rightarrow> real list option \<Rightarrow> database" where
  "update_chunk_embedding d chunkId embedding =
     d\<lparr>file_chunk :=
         map (\<lambda>c. if fc_id c = chunkId
                   then c\<lparr>fc_embedding := embedding, fc_model_version := Some EMBEDDING_MODEL\<rparr>
                   else c)
           (file_chunk d)\<rparr>"

text \<open>\<open>for (let j = 0; j < batch.length; j++)\<close>, from index \<open>j\<close> on; the second list is
  \<open>embeddings\<close> from index \<open>j\<close> on.\<close>

fun store_embeddings :: "database \<Rightarrow> pending_chunk list \<Rightarrow> real list list \<Rightarrow> database" where
  "store_embeddings d [] embeddings = d"
| "store_embeddings d (chunk # batch) [] =
     store_embeddings (update_chunk_embedding d (pc_id chunk) None) batch []"
| "store_embeddings d (chunk # batch) (embedding # embeddings) =
     store_embeddings (update_chunk_embedding d (pc_id chunk) (Some embedding)) batch embeddings"

text \<open>
  The lines that \<open>embedFiles\<close> and the search of \<open>queryRepo\<close> write with \<open>console.error\<close>,
  one constructor for each statement, with the values that the line prints (elapsed times
  left out). The lines of other modules are not recorded.
\<close>

datatype log_line =
    EmbedStarting "embed_input option"
  | EmbedInputUndefined
  | EmbedBranchMissing nat
  | EmbedNoFiles nat
  | EmbedSettingStatus
  | EmbedFindingChunks nat
  | EmbedNothingToEmbed
  | EmbedFound nat
  | EmbedBatch nat nat
  | EmbedGenerating nat
  | EmbedGenerated
  | EmbedStoring
  | EmbedProcessed nat
  | EmbedFailed string
  | SearchStarting "int option"
  | SearchCompleted nat
  | SearchNoResults
  | SearchFoundUnembedded nat
  | SearchEmbedFailed string
  | SearchRetrying
  | SearchRetryCompleted nat

text \<open>\<open>for (let i = 0; i < chunks.length; i += BATCH_SIZE)\<close>; the first list is \<open>chunks\<close>
  from index \<open>i\<close> on, and \<open>processedChunks\<close> is \<open>i\<close>. The result has the lines written, the
  store, and \<open>processedChunks\<close> or what was thrown.\<close>

function embed_batches ::
  "collaborators \<Rightarrow> notifier \<Rightarrow> nat \<Rightarrow> pending_chunk list \<Rightarrow> nat \<Rightarrow> database
     \<Rightarrow> log_line list \<times> database \<times> (exn + nat)" where
  "embed_batches env progressNotifier totalChunks chunks processedChunks d =
     (if chunks = [] then ([], d, Inr processedChunks)
      else
        (let batch = take BATCH_SIZE chunks;
             before = [EmbedBatch (processedChunks div BATCH_SIZE + 1)
                         ((totalChunks + BATCH_SIZE - 1) div BATCH_SIZE),
                       EmbedGenerating (length batch)]
         in case generateOllamaEmbeddings env (map pc_content batch) of
           Inl e \<Rightarrow> (before, d, Inl e)
         | Inr embeddings \<Rightarrow>
             (case transaction (\<lambda>d. Inr (store_embeddings d batch embeddings, ())) d of
                (d', Inl e) \<Rightarrow> (before @ [EmbedGenerated, EmbedStoring], d', Inl e)
              | (d', Inr u) \<Rightarrow>
                  (case sendProgress progressNotifier
                          (real (processedChunks + length batch) / real totalChunks) 1 of
                     Some e \<Rightarrow> (before @ [EmbedGenerated, EmbedStoring], d', Inl e)
                   | None \<Rightarrow>
                       (case embed_batches env progressNotifier totalChunks (drop BATCH_SIZE chunks)
                               (processedChunks + length batch) d' of
                          (lines, r) \<Rightarrow> (before @ [EmbedGenerated, EmbedStoring] @ lines, r))))))"
  by pat_completeness auto
termination
  by (relation "measure (\<lambda>(env, n, t, chunks, p, d). length chunks)")
     (auto simp: BATCH_SIZE_def)

declare embed_batches.simps [simp del]

text \<open>Decimal digits of a number, for the messages.\<close>

definition digit_char :: "nat \<Rightarrow> char" where
  "digit_char k = ''0123456789'' ! k"

fun string_of_nat :: "nat \<Rightarrow> string" where
  "string_of_nat n =
     (if 9 < n then string_of_nat (n div 10) @ [digit_char (n mod 10)] else [digit_char n])"

text \<open>The \<open>catch\<close> of a tool whose lines are recorded: it writes the line of the error and
  returns the error payload.\<close>

definition catch_logged ::
  "string \<Rightarrow> (string \<Rightarrow> log_line) \<Rightarrow> log_line list \<times> database \<times> (exn + 'a payload)
     \<Rightarrow> log_line list \<times> database \<times> (exn + 'a payload)" where
  "catch_logged tool line r =
     (case snd (snd r) of
        Inl e \<Rightarrow>
          (fst r @ [line (error_text e)], fst (snd r),
           Inr (ErrorPayload (''Error executing '' @ tool @ '' tool: '' @ error_text e)))
      | Inr p \<Rightarrow> r)"

text \<open>The tool with the lines it writes.\<close>

definition embedFiles_run ::
  "collaborators \<Rightarrow> notifier \<Rightarrow> embed_input option \<Rightarrow> database
     \<Rightarrow> log_line list \<times> database \<times> (exn + embed_output payload)" where
  "embedFiles_run env progressNotifier input d =
     catch_logged ''embedFiles'' EmbedFailed
       (case input of
          None \<Rightarrow>
            ([EmbedStarting input, EmbedInputUndefined], d,
             Inr (ErrorPayload ''Input parameters are required for embedFiles tool''))
        | Some given \<Rightarrow>
            (let branchId = ei_branchId given in
             case List.find (\<lambda>b. b_id b = branchId) (branch_tbl d) of
               None \<Rightarrow>
                 ([EmbedStarting input, EmbedBranchMissing branchId], d,
                  Inr (ErrorPayload
                         (''Branch with ID '' @ string_of_nat branchId @ '' does not exist'')))
             | Some branchExists \<Rightarrow>
                 if length (filter (\<lambda>a. fst a = branchId) (branch_file_association d)) = 0 then
                   ([EmbedStarting input, EmbedNoFiles branchId, EmbedSettingStatus],
                    update_branch_status d branchId EmbeddingsGenerated,
                    Inr (Output \<lparr>chunksProcessed = 0\<rparr>))
                 else
                   (let chunks = sqlite_pending env d (chunks_without_embeddings d branchId) in
                    if length chunks = 0 then
                      (let d' = update_branch_status d branchId EmbeddingsGenerated;
                           lines = [EmbedStarting input, EmbedFindingChunks branchId,
                                    EmbedNothingToEmbed, EmbedSettingStatus]
                       in case sendProgress progressNotifier 1 1 of
                         Some e \<Rightarrow> (lines, d', Inl e)
                       | None \<Rightarrow> (lines, d', Inr (Output \<lparr>chunksProcessed = 0\<rparr>)))
                    else
                      (let lines = [EmbedStarting input, EmbedFindingChunks branchId,
                                    EmbedFound (length chunks)]
                       in case embed_batches env progressNotifier (length chunks) chunks 0 d of
                         (batchLines, d', Inl e) \<Rightarrow> (lines @ batchLines, d', Inl e)
                       | (batchLines, d', Inr processedChunks) \<Rightarrow>
                           (lines @ batchLines @ [EmbedSettingStatus, EmbedProcessed processedChunks],
                            update_branch_status d' branchId EmbeddingsGenerated,
                            Inr (Output \<lparr>chunksProcessed = processedChunks\<rparr>))))))"

text \<open>The tool: the store it leaves and what it returns.\<close>

definition embedFiles ::
  "collaborators \<Rightarrow> notifier \<Rightarrow> embed_input option \<Rightarrow> database
     \<Rightarrow> database \<times> (exn + embed_output payload)" where
  "embedFiles env progressNotifier input d = snd (embedFiles_run env progressNotifier input d)"

section \<open>\<open>ingestBranch\<close> (ingestBranch.ts)\<close>

record ingest_input =
  ii_repoUrl :: string
  ii_branch :: "string option"

record branch_data =
  bd_repoLocalPath :: string
  bd_repoId :: nat
  bd_branchId :: nat
  bd_needsUpdate :: bool
  bd_repoName :: string
  bd_actualBranch :: string
  bd_latestCommit :: string

definition cloneRepositoryWithProgress :: "collaborators \<Rightarrow> notifier \<Rightarrow> string \<Rightarrow> exn + string" where
  "cloneRepositoryWithProgress env progressNotifier repoUrl =
     (case sendProgress progressNotifier 0 1 of
        Some e \<Rightarrow> Inl e
      | None \<Rightarrow>
          (case clone env repoUrl of
             Inl e \<Rightarrow> Inl e
           | Inr repoLocalPath \<Rightarrow>
               (case sendProgress progressNotifier 0.33 1 of
                  Some e \<Rightarrow> Inl e
                | None \<Rightarrow> Inr repoLocalPath)))"

text \<open>\<open>SELECT id FROM repository WHERE name = ?\<close>, and the \<open>INSERT\<close> when there is none
  (the table has \<open>UNIQUE(path)\<close>).\<close>

definition register_repository :: "database \<Rightarrow> string \<Rightarrow> string \<Rightarrow> exn + database \<times> nat" where
  "register_repository d repoName repoLocalPath =
     (case List.find (\<lambda>r. r_name r = repoName) (repository_tbl d) of
        Some repoExists \<Rightarrow> Inr (d, r_id repoExists)
      | None \<Rightarrow>
          if list_ex (\<lambda>r. r_path r = repoLocalPath) (repository_tbl d) then
            Inl (Error ''UNIQUE constraint failed: repository.path'')
          else
            Inr (d\<lparr>repository_tbl := repository_tbl d @
                       [\<lparr>r_id = Suc (repository_seq d), r_name = repoName, r_path = repoLocalPath\<rparr>],
                    repository_seq := Suc (repository_seq d)\<rparr>,
                 Suc (repository_seq d)))"

text \<open>The branch row is looked up; a changed commit resets it to \<open>pending\<close>; a branch that is
  new, or changed, or was not at \<open>embeddings_generated\<close> needs an update.\<close>

definition register_branch :: "database \<Rightarrow> string \<Rightarrow> nat \<Rightarrow> string \<Rightarrow> database \<times> nat \<times> bool" where
  "register_branch d actualBranch repoId latestCommit =
     (case List.find (\<lambda>b. b_name b = actualBranch \<and> b_repository_id b = repoId) (branch_tbl d) of
        Some branchExists \<Rightarrow>
          (if b_last_commit_sha branchExists \<noteq> latestCommit then
             d\<lparr>branch_tbl :=
                 map (\<lambda>b. if b_id b = b_id branchExists
                           then b\<lparr>b_last_commit_sha := latestCommit, b_status := BranchPending\<rparr>
                           else b)
                   (branch_tbl d)\<rparr>
           else d,
           b_id branchExists,
           \<not> (b_last_commit_sha branchExists = latestCommit
                \<and> b_status branchExists = EmbeddingsGenerated))
      | None \<Rightarrow>
          (d\<lparr>branch_tbl := branch_tbl d @
                 [\<lparr>b_id = Suc (branch_seq d), b_name = actualBranch, b_repository_id = repoId,
                   b_last_commit_sha = latestCommit, b_status = BranchPending\<rparr>],
              branch_seq := Suc (branch_seq d)\<rparr>,
           Suc (branch_seq d), True))"

definition ingestBranch ::
  "collaborators \<Rightarrow> notifier \<Rightarrow> ingest_input option \<Rightarrow> database
     \<Rightarrow> database \<times> (exn + branch_data payload)" where
  "ingestBranch env progressNotifier input d =
     catch_all ''ingestBranch''
       (case input of
          None \<Rightarrow> (d, Inr (ErrorPayload ''Input parameters are required for ingestBranch tool''))
        | Some input \<Rightarrow>
            if ii_repoUrl input = [] then
              (d, Inr (ErrorPayload ''Required parameter (repoUrl) is missing''))
            else
              (case cloneRepositoryWithProgress env progressNotifier (ii_repoUrl input) of
                 Inl e \<Rightarrow> (d, Inl e)
               | Inr repoLocalPath \<Rightarrow>
                   (let requested = (case ii_branch input of None \<Rightarrow> [] | Some b \<Rightarrow> b);
                        actualBranch =
                          (if requested = [] then
                             (case head_branch env repoLocalPath of
                                Inl e \<Rightarrow> ''main''
                              | Inr defaultBranch \<Rightarrow> defaultBranch)
                           else requested)
                    in case checkout env repoLocalPath actualBranch of
                         Some e \<Rightarrow> (d, Inl e)
                       | None \<Rightarrow>
                           (case revparse env repoLocalPath actualBranch of
                              Inl e \<Rightarrow> (d, Inl e)
                            | Inr latestCommit \<Rightarrow>
                                (let repoName = basename env (ii_repoUrl input) in
                                 case register_repository d repoName repoLocalPath of
                                   Inl e \<Rightarrow> (d, Inl e)
                                 | Inr (d1, repoId) \<Rightarrow>
                                     (case register_branch d1 actualBranch repoId latestCommit of
                                        (d2, branchId, needsUpdate) \<Rightarrow>
                                          (d2, Inr (Output
                                             \<lparr>bd_repoLocalPath = repoLocalPath, bd_repoId = repoId,
                                              bd_branchId = branchId, bd_needsUpdate = needsUpdate,
                                              bd_repoName = repoName, bd_actualBranch = actualBranch,
                                              bd_latestCommit = latestCommit\<rparr>))))))))"

section \<open>The scan of the retrieval engine (queryRepo.ts)\<close>

text \<open>
  \<open>SELECT SUM(json_extract(value, '$') * json_extract(?, '$[' || key || ']')) FROM
  json_each(fc.embedding) GROUP BY key IS NOT NULL\<close>: the sum, over the positions of the
  chunk vector, of the products with the query vector; a position that the query vector
  does not have gives \<open>NULL\<close>, which \<open>SUM\<close> skips; without any product the value is
  \<open>NULL\<close>.
\<close>

definition product_sum :: "real list \<Rightarrow> real list \<Rightarrow> real option" where
  "product_sum chunkVector queryVector =
     (let products = map (\<lambda>vq. fst vq * snd vq) (zip chunkVector queryVector) in
      if products = [] then None else Some (sum_list products))"

text \<open>
  The engine has integers and floating-point numbers. A number of the JSON text is an
  integer when it is written without fraction and fits 64 bits; a product of integers
  that fits is an integer; a sum of integers is an integer, and an error when a partial
  sum does not fit; an integer divided by an integer is the quotient truncated towards
  zero. The model computes with exact reals (the rounding of floating-point arithmetic is
  not modelled) and leaves a scan in which an integer sum does not fit to the engine.
\<close>

definition sql_integer :: "real \<Rightarrow> bool" where
  "sql_integer x = (x = of_int \<lfloor>x\<rfloor> \<and> - (2 ^ 63) \<le> x \<and> x < 2 ^ 63)"

definition integer_products :: "real list \<Rightarrow> real list \<Rightarrow> bool" where
  "integer_products chunkVector queryVector =
     list_all (\<lambda>vq. sql_integer (fst vq) \<and> sql_integer (snd vq) \<and> sql_integer (fst vq * snd vq))
       (zip chunkVector queryVector)"

fun sums_fit :: "real \<Rightarrow> real list \<Rightarrow> bool" where
  "sums_fit acc [] = True"
| "sums_fit acc (p # ps) = (sql_integer (acc + p) \<and> sums_fit (acc + p) ps)"

definition sum_defined :: "real list \<Rightarrow> real list \<Rightarrow> bool" where
  "sum_defined chunkVector queryVector =
     (if integer_products chunkVector queryVector
      then sums_fit 0 (map (\<lambda>vq. fst vq * snd vq) (zip chunkVector queryVector))
      else True)"

definition truncated_quotient :: "int \<Rightarrow> int \<Rightarrow> int" where
  "truncated_quotient a n = (if a < 0 then - ((- a) div n) else a div n)"

text \<open>The \<open>similarity\<close> column of the first scan: the sum divided by
  \<open>queryEmbedding.length\<close>.\<close>

definition similarity_initial :: "real list \<Rightarrow> real list \<Rightarrow> real option" where
  "similarity_initial chunkVector queryVector =
     (case product_sum chunkVector queryVector of
        None \<Rightarrow> None
      | Some x \<Rightarrow>
          if length queryVector = 0 then None
          else if integer_products chunkVector queryVector then
            Some (of_int (truncated_quotient \<lfloor>x\<rfloor> (int (length queryVector))))
          else Some (x / real (length queryVector)))"

text \<open>The \<open>similarity\<close> column of the scan that follows the generation of embeddings.\<close>

definition similarity_retry :: "real list \<Rightarrow> real list \<Rightarrow> real option" where
  "similarity_retry chunkVector queryVector = product_sum chunkVector queryVector"

fun similarity :: "scan_kind \<Rightarrow> real list \<Rightarrow> real list \<Rightarrow> real option" where
  "similarity FirstScan = similarity_initial"
| "similarity RetryScan = similarity_retry"

text \<open>\<open>ORDER BY similarity DESC\<close>: \<open>NULL\<close> is below every number; the sorting keeps the
  order in which it gets rows that compare equal.\<close>

fun similarity_le :: "real option \<Rightarrow> real option \<Rightarrow> bool" where
  "similarity_le None b = True"
| "similarity_le (Some x) None = False"
| "similarity_le (Some x) (Some y) = (x \<le> y)"

fun insert_desc :: "scan_row \<Rightarrow> scan_row list \<Rightarrow> scan_row list" where
  "insert_desc r [] = [r]"
| "insert_desc r (x # xs) =
     (if similarity_le (sr_similarity x) (sr_similarity r) then r # x # xs
      else x # insert_desc r xs)"

definition order_by_similarity_desc :: "scan_row list \<Rightarrow> scan_row list" where
  "order_by_similarity_desc rows = foldr insert_desc rows []"

text \<open>\<open>LIMIT ?\<close>: a negative limit is no limit.\<close>

definition sql_limit :: "int \<Rightarrow> 'a list \<Rightarrow> 'a list" where
  "sql_limit n rows = (if n < 0 then rows else take (nat n) rows)"

text \<open>The rows of the \<open>WHERE\<close> clause with their \<open>similarity\<close> column.\<close>

definition scan_rows ::
  "(real list \<Rightarrow> real list \<Rightarrow> real option) \<Rightarrow> database \<Rightarrow> real list \<Rightarrow> nat \<Rightarrow> path_cond list
     \<Rightarrow> scan_row list" where
  "scan_rows column d queryEmbedding branchId filePatternCondition =
     concat
       (map (\<lambda>cf. case fc_embedding (fst cf) of
                    None \<Rightarrow> []
                  | Some v \<Rightarrow>
                      if conds_hold filePatternCondition (f_path (snd cf)) then
                        [\<lparr>sr_content = fc_content (fst cf), sr_path = f_path (snd cf),
                          sr_chunk_number = fc_chunk_number (fst cf),
                          sr_similarity = column v queryEmbedding\<rparr>]
                      else [])
          (branch_chunks d branchId))"

text \<open>Where the model describes the scan: the text of the condition is read as its
  structure, the limit is a 64-bit integer, and no integer sum overflows.\<close>

definition described ::
  "database \<Rightarrow> real list \<Rightarrow> nat \<Rightarrow> path_cond list \<Rightarrow> int \<Rightarrow> bool" where
  "described d queryEmbedding branchId filePatternCondition effectiveLimit =
     (list_all sql_intact filePatternCondition
      \<and> - (2 ^ 63) \<le> effectiveLimit \<and> effectiveLimit < 2 ^ 63
      \<and> list_all (\<lambda>cf. case fc_embedding (fst cf) of
                          None \<Rightarrow> True
                        | Some v \<Rightarrow> sum_defined v queryEmbedding)
            (branch_chunks d branchId))"

text \<open>The scan: \<open>dbInterface.all\<close> of the statement with the condition pasted in. It returns
  the rows or what the engine throws.\<close>

definition scan ::
  "collaborators \<Rightarrow> scan_kind \<Rightarrow> database \<Rightarrow> real list \<Rightarrow> nat \<Rightarrow> path_cond list \<Rightarrow> int
     \<Rightarrow> exn + scan_row list" where
  "scan env kind d queryEmbedding branchId filePatternCondition effectiveLimit =
     (if described d queryEmbedding branchId filePatternCondition effectiveLimit then
        Inr (sql_limit effectiveLimit
               (order_by_similarity_desc
                  (sqlite_order env d
                     (scan_rows (similarity kind) d queryEmbedding branchId filePatternCondition))))
      else
        sqlite_other env kind (condition_sql filePatternCondition) queryEmbedding branchId
          effectiveLimit d)"

section \<open>\<open>queryRepo\<close> (queryRepo.ts)\<close>

record query_input =
  qi_repoUrl :: string
  qi_branch :: "string option"
  qi_semanticSearch :: string
  qi_keywordsSearch :: "string list option"
  qi_filePatterns :: "string list option"
  qi_excludePatterns :: "string list option"
  qi_limit :: "int option"

record query_result =
  qr_filePath :: string
  qr_chunkNumber :: nat
  qr_content :: string
  qr_similarity :: "real option"

record query_output =
  qo_repoUrl :: string
  qo_branch :: string
  qo_results :: "query_result list"

text \<open>\<open>keywordsSearch.join(" ")\<close>\<close>

fun join_space :: "string list \<Rightarrow> string" where
  "join_space [] = []"
| "join_space [k] = k"
| "join_space (k # ks) = k @ '' '' @ join_space ks"

text \<open>The filter by keywords: a result is kept when its content contains one of the
  keywords, both in lower case, the keywords trimmed.\<close>

definition keyword_filter :: "string list option \<Rightarrow> scan_row list \<Rightarrow> scan_row list" where
  "keyword_filter keywordsSearch results =
     (case keywordsSearch of
        None \<Rightarrow> results
      | Some kws \<Rightarrow>
          if length kws > 0 then
            filter (\<lambda>result.
                      list_ex (\<lambda>keyword. str_includes (toLowerCase (sr_content result)) keyword)
                        (map (\<lambda>kw. toLowerCase (trim kw)) kws))
              results
          else results)"

text \<open>
  The search of the tool, from \<open>Searching for similar chunks\<close> to the end of the block
  that generates missing embeddings: the lines written, the store, and \<open>results\<close> or an
  error.
\<close>

definition search_branch ::
  "collaborators \<Rightarrow> notifier \<Rightarrow> branch_data \<Rightarrow> real list \<Rightarrow> query_input \<Rightarrow> database
     \<Rightarrow> log_line list \<times> database \<times> (exn + scan_row list payload)" where
  "search_branch env heartbeatNotifier branchData queryEmbedding input d =
     (let effectiveLimit = (case qi_limit input of None \<Rightarrow> 10 | Some l \<Rightarrow> l);
          filePatternCondition =
            createFilePatternCondition (qi_filePatterns input) (qi_excludePatterns input);
          branchId = bd_branchId branchData
      in case scan env FirstScan d queryEmbedding branchId filePatternCondition effectiveLimit of
           Inl e \<Rightarrow> ([SearchStarting (qi_limit input)], d, Inl e)
         | Inr results \<Rightarrow>
             (let lines = [SearchStarting (qi_limit input), SearchCompleted (length results)] in
              case sendProgress heartbeatNotifier 0.7 1 of
                Some e \<Rightarrow> (lines, d, Inl e)
              | None \<Rightarrow>
                  if length results = 0 then
                    (let lines = lines @ [SearchNoResults];
                         count = length (chunks_without_embeddings d branchId)
                     in if count > 0 then
                          (let lines = lines @ [SearchFoundUnembedded count] in
                           case sendProgress heartbeatNotifier 0.75 1 of
                             Some e \<Rightarrow> (lines, d, Inl e)
                           | None \<Rightarrow>
                               (case embedFiles_run env None
                                       (Some \<lparr>ei_repoLocalPath = bd_repoLocalPath branchData,
                                              ei_branchId = branchId\<rparr>) d of
                                  (embedLines, d', Inl e) \<Rightarrow> (lines @ embedLines, d', Inl e)
                                | (embedLines, d', Inr embedResult) \<Rightarrow>
                                    (let lines = lines @ embedLines in
                                     case sendProgress heartbeatNotifier 0.9 1 of
                                       Some e \<Rightarrow> (lines, d', Inl e)
                                     | None \<Rightarrow>
                                         (case embedResult of
                                            ErrorPayload message \<Rightarrow>
                                              (lines @ [SearchEmbedFailed message], d',
                                               Inr (ErrorPayload message))
                                          | Output out \<Rightarrow>
                                              (case scan env RetryScan d' queryEmbedding branchId
                                                      filePatternCondition effectiveLimit of
                                                 Inl e \<Rightarrow> (lines @ [SearchRetrying], d', Inl e)
                                               | Inr retryResults \<Rightarrow>
                                                   (lines @ [SearchRetrying,
                                                             SearchRetryCompleted (length retryResults)],
                                                    d', Inr (Output (results @ retryResults))))))))
                        else (lines, d, Inr (Output results)))
                  else (lines, d, Inr (Output results))))"

text \<open>The tool; its own lines are not recorded. The heartbeat timer is outside the
  model.\<close>

definition queryRepo ::
  "collaborators \<Rightarrow> notifier \<Rightarrow> query_input option \<Rightarrow> database
     \<Rightarrow> database \<times> (exn + query_output payload)" where
  "queryRepo env heartbeatNotifier input d =
     catch_all ''queryRepo''
       (case input of
          None \<Rightarrow> (d, Inr (ErrorPayload ''Input parameters are required for queryRepo tool''))
        | Some input \<Rightarrow>
            if qi_repoUrl input = []
               \<or> (qi_semanticSearch input = [] \<and> qi_keywordsSearch input = None) then
              (d, Inr (ErrorPayload
                 ''Required parameters (repoUrl, semanticSearch or keywordsSearch) are missing''))
            else
              (let semanticSearch =
                     (if qi_semanticSearch input = [] then
                        join_space (case qi_keywordsSearch input of None \<Rightarrow> [] | Some kws \<Rightarrow> kws)
                      else qi_semanticSearch input)
               in case sendProgress heartbeatNotifier 0.05 1 of
                    Some e \<Rightarrow> (d, Inl e)
                  | None \<Rightarrow>
                (case ingestBranch env None
                        (Some \<lparr>ii_repoUrl = qi_repoUrl input, ii_branch = qi_branch input\<rparr>) d of
                   (d1, Inl e) \<Rightarrow> (d1, Inl e)
                 | (d1, Inr branchResult) \<Rightarrow>
                (case sendProgress heartbeatNotifier 0.25 1 of
                   Some e \<Rightarrow> (d1, Inl e)
                 | None \<Rightarrow>
                (case branchResult of
                   ErrorPayload message \<Rightarrow> (d1, Inr (ErrorPayload message))
                 | Output branchData \<Rightarrow>
                (case processFiles env None
                        (Some \<lparr>pi_repoLocalPath = bd_repoLocalPath branchData,
                               pi_repoId = bd_repoId branchData,
                               pi_branchId = bd_branchId branchData,
                               pi_actualBranch = bd_actualBranch branchData,
                               pi_needsUpdate = bd_needsUpdate branchData\<rparr>) d1 of
                   (d2, Inl e) \<Rightarrow> (d2, Inl e)
                 | (d2, Inr filesResult) \<Rightarrow>
                (case sendProgress heartbeatNotifier 0.5 1 of
                   Some e \<Rightarrow> (d2, Inl e)
                 | None \<Rightarrow>
                (case filesResult of
                   ErrorPayload message \<Rightarrow> (d2, Inr (ErrorPayload message))
                 | Output files \<Rightarrow>
                (case generateOllamaEmbeddings env [semanticSearch] of
                   Inl e \<Rightarrow> (d2, Inl e)
                 | Inr [] \<Rightarrow>
                     (d2, Inl (Error ''Cannot read properties of undefined (reading 'length')''))
                 | Inr (queryEmbedding # others) \<Rightarrow>
                (case sendProgress heartbeatNotifier 0.6 1 of
                   Some e \<Rightarrow> (d2, Inl e)
                 | None \<Rightarrow>
                (case search_branch env heartbeatNotifier branchData queryEmbedding input d2 of
                   (lines, d3, Inl e) \<Rightarrow> (d3, Inl e)
                 | (lines, d3, Inr (ErrorPayload message)) \<Rightarrow> (d3, Inr (ErrorPayload message))
                 | (lines, d3, Inr (Output results)) \<Rightarrow>
                (case sendProgress heartbeatNotifier 1 1 of
                   Some e \<Rightarrow> (d3, Inl e)
                 | None \<Rightarrow>
                     (d3, Inr (Output
                        \<lparr>qo_repoUrl = qi_repoUrl input,
                         qo_branch = bd_actualBranch branchData,
                         qo_results =
                           map (\<lambda>result. \<lparr>qr_filePath = sr_path result,
                                           qr_chunkNumber = sr_chunk_number result,
                                           qr_content = sr_content result,
                                           qr_similarity = sr_similarity result\<rparr>)
                             (keyword_filter (qi_keywordsSearch input) results)\<rparr>))))))))))))))"

text \<open>
  The score of the specification, written from its words: the sum of the coordinate-wise
  products of the query vector and the chunk vector, divided by the number of
  coordinates.
\<close>

definition spec_similarity :: "real list \<Rightarrow> real list \<Rightarrow> real" where
  "spec_similarity queryVector chunkVector =
     sum_list (map (\<lambda>qc. fst qc * snd qc) (zip queryVector chunkVector)) / real (length queryVector)"

section \<open>What the lazy backfill is measured against\<close>






text \<open>The table of chunks in which each chunk that a list names by its id has the vector
  that the list gives for it, and the model name of the configuration.\<close>

definition with_vector :: "(nat \<times> real list) list \<Rightarrow> chunk_row \<Rightarrow> chunk_row" where
  "with_vector vectors c =
     (case map_of vectors (fc_id c) of
        None \<Rightarrow> c
      | Some v \<Rightarrow> c\<lparr>fc_embedding := Some v, fc_model_version := Some EMBEDDING_MODEL\<rparr>)"

definition with_vectors :: "(nat \<times> real list) list \<Rightarrow> chunk_row list \<Rightarrow> chunk_row list" where
  "with_vectors vectors chunks = map (with_vector vectors) chunks"






section \<open>The sibling paths (tools/queryRepo.ts before the split into tools, githubRepo.ts)\<close>

text \<open>\<open>INSERT INTO file_chunk (file_id, content, chunk_number, embedding, model_version,
  token_count) VALUES (?, ?, ?, ?, ?, ?)\<close>, with the uniqueness of the ordinal within a file
  and the foreign key.\<close>

definition insert_embedded_chunk ::
  "database \<Rightarrow> nat \<Rightarrow> string \<Rightarrow> nat \<Rightarrow> real list option \<Rightarrow> nat \<Rightarrow> exn + database" where
  "insert_embedded_chunk d fileId chunkContent chunkNumber embedding tokenCount =
     (if list_ex (\<lambda>c. fc_file_id c = fileId \<and> fc_chunk_number c = chunkNumber) (file_chunk d) then
        Inl (Error ''UNIQUE constraint failed: file_chunk.file_id, file_chunk.chunk_number'')
      else if fileId \<in> set (map f_id (file_tbl d)) then
        Inr (d\<lparr>file_chunk := file_chunk d @
                   [\<lparr>fc_id = Suc (file_chunk_seq d), fc_file_id = fileId,
                     fc_content = chunkContent,
                     fc_chunk_number = chunkNumber, fc_embedding = embedding,
                     fc_model_version = Some EMBEDDING_MODEL,
                     fc_token_count = Some tokenCount\<rparr>],
                file_chunk_seq := Suc (file_chunk_seq d)\<rparr>)
      else Inl (Error ''FOREIGN KEY constraint failed''))"

text \<open>A chunk of the older \<open>queryRepo\<close>: content, \<open>chunkNumber\<close>, \<open>tokenCount\<close>.\<close>

type_synonym legacy_chunk = "string \<times> nat \<times> nat"

fun number_chunks :: "string list \<Rightarrow> nat \<Rightarrow> legacy_chunk list" where
  "number_chunks [] index = []"
| "number_chunks (c # cs) index = (c, index + 1, (length c + 3) div 4) # number_chunks cs (index + 1)"

text \<open>The transaction that stores one batch with its vectors.\<close>

fun legacy_store_batch :: "nat \<Rightarrow> legacy_chunk list \<Rightarrow> real list list \<Rightarrow> database \<Rightarrow> exn + database" where
  "legacy_store_batch fileId [] embeddings d = Inr d"
| "legacy_store_batch fileId (chunk # batch) embeddings d =
     (case insert_embedded_chunk d fileId (fst chunk) (fst (snd chunk))
             (case embeddings of [] \<Rightarrow> None | e # es \<Rightarrow> Some e) (snd (snd chunk)) of
        Inl e \<Rightarrow> Inl e
      | Inr d' \<Rightarrow> legacy_store_batch fileId batch (tl embeddings) d')"

function legacy_batches ::
  "collaborators \<Rightarrow> nat \<Rightarrow> legacy_chunk list \<Rightarrow> database \<Rightarrow> database \<times> (exn + unit)" where
  "legacy_batches env fileId chunks d =
     (if chunks = [] then (d, Inr ())
      else
        (case generateOllamaEmbeddings env (map fst (take 20 chunks)) of
           Inl e \<Rightarrow> (d, Inl e)
         | Inr embeddings \<Rightarrow>
             (case transaction
                     (\<lambda>d. case legacy_store_batch fileId (take 20 chunks) embeddings d of
                            Inl e \<Rightarrow> Inl e
                          | Inr d' \<Rightarrow> Inr (d', ())) d of
                (d', Inl e) \<Rightarrow> (d', Inl e)
              | (d', Inr u) \<Rightarrow> legacy_batches env fileId (drop 20 chunks) d')))"
  by pat_completeness auto
termination
  by (relation "measure (\<lambda>(env, f, chunks, d). length chunks)") auto

declare legacy_batches.simps [simp del]

text \<open>
  What the older \<open>queryRepo\<close> does with a new or updated file that is not ignored: it
  deletes the chunks of the file, stores the chunks of the content with their vectors, and
  marks the file \<open>done\<close>; an exception marks it \<open>fetched\<close>.
\<close>

definition legacy_rechunk :: "collaborators \<Rightarrow> string \<Rightarrow> file_to_process \<Rightarrow> database \<Rightarrow> database" where
  "legacy_rechunk env repoPath file d =
     (case read_chunks env repoPath (ftp_path file) of
        Missing \<Rightarrow> d
      | ReadFails e \<Rightarrow> update_file_status d (ftp_id file) Fetched
      | Chunks docChunks \<Rightarrow>
          (case legacy_batches env (ftp_id file) (number_chunks docChunks 0)
                  (delete_chunks d (ftp_id file)) of
             (d', Inl e) \<Rightarrow> update_file_status d' (ftp_id file) Fetched
           | (d', Inr u) \<Rightarrow> update_file_status d' (ftp_id file) Done))"

text \<open>
  The completion check of \<open>embedBranchFiles\<close> (githubRepo.ts):
  \<open>UPDATE file SET status = 'ingested' WHERE id = ? AND NOT EXISTS (SELECT 1 FROM file_chunk
  WHERE file_chunk.file_id = file.id AND file_chunk.embedding IS NULL)\<close>, and
  \<open>UPDATE branch SET status = 'embeddings_generated' WHERE id = ? AND NOT EXISTS (SELECT 1
  FROM branch_file_association bfa JOIN file f ON bfa.file_id = f.id WHERE bfa.branch_id = ?
  AND f.status != 'ingested')\<close>.
\<close>

definition mark_file_ingested :: "database \<Rightarrow> nat \<Rightarrow> database" where
  "mark_file_ingested d fileId =
     (if list_ex (\<lambda>c. fc_file_id c = fileId \<and> fc_embedding c = None) (file_chunk d) then d
      else update_file_status d fileId Ingested)"

definition mark_branch_generated :: "database \<Rightarrow> nat \<Rightarrow> database" where
  "mark_branch_generated d branchId =
     (if list_ex (\<lambda>f. f_status f \<noteq> Ingested) (branch_files d branchId) then d
      else update_branch_status d branchId EmbeddingsGenerated)"

text \<open>The end of the transaction of \<open>embedBranchFiles\<close>, after the vectors of the batch
  \<open>pendingChunks\<close> have been stored: the files of the batch, then the branch.\<close>

definition legacy_completion :: "database \<Rightarrow> nat \<Rightarrow> pending_chunk list \<Rightarrow> database" where
  "legacy_completion d branchId pendingChunks =
     mark_branch_generated
       (fold (\<lambda>fileId d. mark_file_ingested d fileId) (remdups (map pc_file_id pendingChunks)) d)
       branchId"

section \<open>A store and collaborators for the closed instances\<close>

text \<open>
  One repository with the branches \<open>main\<close> and \<open>dev\<close>. \<open>main\<close> holds \<open>x.ts\<close>, \<open>keep.ts\<close> and
  \<open>gone.ts\<close>, \<open>dev\<close> holds \<open>shared.ts\<close>; \<open>x.ts\<close> and \<open>gone.ts\<close> have one embedded chunk each.
  The new commit of \<open>main\<close> changes \<open>x.ts\<close>, keeps \<open>keep.ts\<close>, drops \<open>gone.ts\<close> and adds
  \<open>shared.ts\<close> (as on \<open>dev\<close>), \<open>fresh.ts\<close> and \<open>missing.ts\<close>; the last one cannot be read from
  the working copy.
\<close>

definition ex_db :: database where
  "ex_db =
     \<lparr>repository_tbl = [\<lparr>r_id = 1, r_name = ''repo'', r_path = ''/repos/repo''\<rparr>],
      branch_tbl =
        [\<lparr>b_id = 1, b_name = ''main'', b_repository_id = 1, b_last_commit_sha = ''c0'',
          b_status = EmbeddingsGenerated\<rparr>,
         \<lparr>b_id = 2, b_name = ''dev'', b_repository_id = 1, b_last_commit_sha = ''c9'',
          b_status = EmbeddingsGenerated\<rparr>],
      file_tbl =
        [\<lparr>f_id = 1, f_repository_id = 1, f_path = ''x.ts'', f_name = ''x.ts'', f_sha = ''sha1'',
          f_status = Fetched\<rparr>,
         \<lparr>f_id = 2, f_repository_id = 1, f_path = ''keep.ts'', f_name = ''keep.ts'', f_sha = ''k1'',
          f_status = Fetched\<rparr>,
         \<lparr>f_id = 3, f_repository_id = 1, f_path = ''gone.ts'', f_name = ''gone.ts'', f_sha = ''g1'',
          f_status = Fetched\<rparr>,
         \<lparr>f_id = 4, f_repository_id = 1, f_path = ''shared.ts'', f_name = ''shared.ts'',
          f_sha = ''s1'', f_status = Fetched\<rparr>],
      branch_file_association = [(1, 1), (1, 2), (1, 3), (2, 4)],
      file_chunk =
        [\<lparr>fc_id = 1, fc_file_id = 1, fc_content = ''old x'', fc_chunk_number = 1,
          fc_embedding = Some [1 / 2, 1 / 2], fc_model_version = Some EMBEDDING_MODEL,
          fc_token_count = None\<rparr>,
         \<lparr>fc_id = 2, fc_file_id = 3, fc_content = ''old gone'', fc_chunk_number = 1,
          fc_embedding = Some [1 / 2, 1 / 2], fc_model_version = Some EMBEDDING_MODEL,
          fc_token_count = None\<rparr>],
      repository_seq = 1, branch_seq = 2, file_seq = 4, file_chunk_seq = 2\<rparr>"

definition ex_listing :: "repository_file list" where
  "ex_listing =
     [\<lparr>rf_path = ''x.ts'', rf_name = ''x.ts'', rf_sha = ''sha2''\<rparr>,
      \<lparr>rf_path = ''keep.ts'', rf_name = ''keep.ts'', rf_sha = ''k1''\<rparr>,
      \<lparr>rf_path = ''shared.ts'', rf_name = ''shared.ts'', rf_sha = ''s1''\<rparr>,
      \<lparr>rf_path = ''fresh.ts'', rf_name = ''fresh.ts'', rf_sha = ''f1''\<rparr>,
      \<lparr>rf_path = ''missing.ts'', rf_name = ''missing.ts'', rf_sha = ''m1''\<rparr>]"

text \<open>A \<open>toLowerCase\<close> for the closed instances: the ASCII letters, the Kelvin sign
  (\<open>U+212A\<close>, whose lower case is \<open>k\<close>) and the dotted capital I (\<open>U+0130\<close>, whose lower case
  is \<open>i\<close> followed by \<open>U+0307\<close>); every other unit is kept.\<close>

definition ex_lower_table :: "code_unit \<Rightarrow> js_string" where
  "ex_lower_table u =
     (if 0x41 \<le> u \<and> u \<le> 0x5A then [u + 0x20]
      else if u = 0x212A then [0x6B]
      else if u = 0x130 then [0x69, 0x307]
      else [u])"

definition ex_toLowerCase :: "js_string \<Rightarrow> js_string" where
  "ex_toLowerCase s = concat (map ex_lower_table s)"

definition ex_env :: collaborators where
  "ex_env =
     \<lparr>clone = (\<lambda>repoUrl. Inr ''/repos/repo''),
      head_branch = (\<lambda>repoPath. Inr ''main''),
      checkout = (\<lambda>repoPath branchName. None),
      revparse = (\<lambda>repoPath branchName. Inr ''c1''),
      ls_tree = (\<lambda>repoPath branchName. Inr ex_listing),
      read_chunks =
        (\<lambda>repoPath path.
           if path = ''x.ts'' then Chunks [''new x'']
           else if path = ''fresh.ts'' then Chunks [''fresh one'', ''fresh two'']
           else Missing),
      generateOllamaEmbeddings = (\<lambda>texts. Inr (map (\<lambda>t. [1 / 2, 1 / 2]) texts)),
      basename = (\<lambda>repoUrl. ''repo''),
      js_toLowerCase = ex_toLowerCase,
      sqlite_order = (\<lambda>d rows. rows),
      sqlite_pending = (\<lambda>d chunks. chunks),
      sqlite_other =
        (\<lambda>kind condition queryEmbedding branchId effectiveLimit d. Inl (Error ''SQL logic error''))\<rparr>"

definition ex_vector :: "real list" where
  "ex_vector = [1 / 2, 1 / 2]"

definition ex_process_input :: process_input where
  "ex_process_input =
     \<lparr>pi_repoLocalPath = ''/repos/repo'', pi_repoId = 1, pi_branchId = 1,
      pi_actualBranch = ''main'', pi_needsUpdate = True\<rparr>"

definition ex_query_input :: query_input where
  "ex_query_input =
     \<lparr>qi_repoUrl = ''https://github.com/o/repo.git'', qi_branch = Some ''main'',
      qi_semanticSearch = ''fresh'', qi_keywordsSearch = Some [],
      qi_filePatterns = Some [''fresh.ts''], qi_excludePatterns = None, qi_limit = None\<rparr>"


text \<open>The store after the files of the new commit of \<open>main\<close> have been processed.\<close>

definition ex_db_processed :: database where
  "ex_db_processed = fst (processFiles ex_env None (Some ex_process_input) ex_db)"

text \<open>
  The new commit of \<open>dev\<close> keeps \<open>shared.ts\<close> and adds \<open>x.ts\<close> with the content that the new
  commit of \<open>main\<close> has; the collaborators that list it, and the store after \<open>dev\<close> has been
  synchronized to it.
\<close>

definition ex_listing_dev :: "repository_file list" where
  "ex_listing_dev =
     [\<lparr>rf_path = ''shared.ts'', rf_name = ''shared.ts'', rf_sha = ''s1''\<rparr>,
      \<lparr>rf_path = ''x.ts'', rf_name = ''x.ts'', rf_sha = ''sha2''\<rparr>]"

definition ex_env_dev :: collaborators where
  "ex_env_dev = ex_env\<lparr>ls_tree := (\<lambda>repoPath branchName. Inr ex_listing_dev)\<rparr>"

definition ex_dev_input :: process_input where
  "ex_dev_input =
     \<lparr>pi_repoLocalPath = ''/repos/repo'', pi_repoId = 1, pi_branchId = 2,
      pi_actualBranch = ''dev'', pi_needsUpdate = True\<rparr>"

definition ex_db_dev_synced :: database where
  "ex_db_dev_synced = fst (processFiles ex_env_dev None (Some ex_dev_input) ex_db)"

text \<open>The character budget that \<open>splitDocument\<close> gives the SQL splitter
  (\<open>CHUNK_SIZE_TOKENS * 3.25\<close>), and a value tuple of \<open>n\<close> digits.\<close>

definition CHUNK_SIZE_CHARACTERS :: nat where
  "CHUNK_SIZE_CHARACTERS = 22750"

definition value_tuple :: "nat \<Rightarrow> string" where
  "value_tuple n = ''('' @ replicate n (CHR ''1'') @ '')''"

text \<open>The characters that \<open>parseValues\<close> only appends to the current tuple.\<close>

definition plain :: "char \<Rightarrow> bool" where
  "plain c = (c \<notin> set [CHR 0x5C, CHR 0x27, CHR 0x22, CHR ''('', CHR '')''])"

text \<open>The store with \<open>x.ts\<close> moved two directories down.\<close>

definition ex_db_nested :: database where
  "ex_db_nested =
     ex_db\<lparr>file_tbl :=
              map (\<lambda>f. if f_id f = 1 then f\<lparr>f_path := ''src/a/b.js'', f_name := ''b.js''\<rparr> else f)
                (file_tbl ex_db)\<rparr>"


text \<open>
  A commit of \<open>main\<close> with the two files \<open>notes.\<close> and \<open>notes.txt\<close>, both readable, with one
  chunk each.
\<close>

definition ex_listing_notes :: "repository_file list" where
  "ex_listing_notes =
     [\<lparr>rf_path = ''notes.'', rf_name = ''notes.'', rf_sha = ''n1''\<rparr>,
      \<lparr>rf_path = ''notes.txt'', rf_name = ''notes.txt'', rf_sha = ''n2''\<rparr>]"

definition ex_env_notes :: collaborators where
  "ex_env_notes =
     ex_env\<lparr>ls_tree := (\<lambda>repoPath branchName. Inr ex_listing_notes),
            read_chunks := (\<lambda>repoPath path. Chunks [''a note''])\<rparr>"

definition ex_db_notes :: database where
  "ex_db_notes = fst (processFiles ex_env_notes None (Some ex_process_input) ex_db)"

definition ex_file_notes :: file_row where
  "ex_file_notes =
     \<lparr>f_id = 1, f_repository_id = 1, f_path = ''notes.'', f_name = ''notes.'', f_sha = ''n1'',
      f_status = Pending\<rparr>"
section \<open>Properties of the extension dispatch\<close>

lemma switch_lookup_notin:
  "e \<notin> set (map units_of (concat (map fst t))) \<Longrightarrow> switch_lookup t e = ''text''"
  by (induction t) auto

lemma switch_lookup_range: "switch_lookup t x \<in> set (''text'' # map snd t)"
  by (induction t) force+

lemma switch_lookup_front:
  "x \<in> set (map units_of (concat (map fst t)))
     \<Longrightarrow> switch_lookup (t @ rest) x = switch_lookup t x \<and> switch_lookup t x \<in> set (map snd t)"
proof (induction t)
  case Nil
  then show ?case by simp
next
  case (Cons row t)
  obtain labels r where row: "row = (labels, r)" by (cases row)
  show ?case
  proof (cases "x \<in> set (map units_of labels)")
    case True
    then show ?thesis by (simp add: row)
  next
    case False
    with Cons.prems have "x \<in> set (map units_of (concat (map fst t)))"
      by (auto simp: row)
    from Cons.IH [OF this] False show ?thesis by (simp add: row)
  qed
qed

lemma switch_lookup_back:
  "x \<notin> set (map units_of (concat (map fst t))) \<Longrightarrow> switch_lookup (t @ rest) x = switch_lookup rest x"
  by (induction t) auto

lemma known_exts_distinct: "distinct known_exts"
  by code_simp

lemma switch_table_ends_with_ignore:
  "switch_table = butlast switch_table @ [(ignore_exts, ''ignore'')]"
  "''ignore'' \<notin> set (map snd (butlast switch_table))"
  by code_simp+

lemma known_exts_split:
  "known_exts = map units_of (concat (map fst (butlast switch_table))) @ ignored_exts"
  by code_simp

lemma switch_lookup_ignore_iff:
  "switch_lookup switch_table x = ''ignore'' \<longleftrightarrow> x \<in> set ignored_exts"
proof (cases "x \<in> set (map units_of (concat (map fst (butlast switch_table))))")
  case True
  from switch_lookup_front [OF True, of "[(ignore_exts, ''ignore'')]"]
  have "switch_lookup switch_table x \<in> set (map snd (butlast switch_table))"
    using switch_table_ends_with_ignore(1) by simp
  then have "switch_lookup switch_table x \<noteq> ''ignore''"
    using switch_table_ends_with_ignore(2) by metis
  moreover have "x \<notin> set ignored_exts"
    using True known_exts_distinct unfolding known_exts_split by auto
  ultimately show ?thesis by simp
next
  case False
  from switch_lookup_back [OF False, of "[(ignore_exts, ''ignore'')]"]
  have "switch_lookup switch_table x = (if x \<in> set ignored_exts then ''ignore'' else ''text'')"
    using switch_table_ends_with_ignore(1) by (simp add: ignored_exts_def)
  then show ?thesis by simp
qed

lemma lower_upper_unit: "lower_unit (upper_unit u) = lower_unit u"
  unfolding lower_unit_def upper_unit_def
  by (auto simp: word_le_nat_alt word_less_nat_alt unat_sub_if' unat_word_ariths)

lemma upper_unit_ascii: "ascii_unit u \<Longrightarrow> ascii_unit (upper_unit u)"
  unfolding ascii_unit_def upper_unit_def
  by (auto simp: word_le_nat_alt word_less_nat_alt unat_sub_if' unat_word_ariths)

lemma lower_of_upper:
  assumes "lowercase_contract lower" and "list_all ascii_unit e"
  shows "lower (map upper_unit e) = lower e"
proof -
  from assms(2) have "list_all ascii_unit (map upper_unit e)"
    by (induction e) (simp_all add: upper_unit_ascii)
  with assms(1) have "lower (map upper_unit e) = map lower_unit (map upper_unit e)"
    unfolding lowercase_contract_def by blast
  also have "\<dots> = map lower_unit e" by (simp add: lower_upper_unit)
  also from assms have "\<dots> = lower e" unfolding lowercase_contract_def by metis
  finally show ?thesis .
qed

lemma ex_table_idem: "concat (map ex_lower_table (ex_lower_table u)) = ex_lower_table u"
  unfolding ex_lower_table_def
  by (auto simp: word_le_nat_alt word_less_nat_alt unat_word_ariths)

lemma ex_table_ascii: "ascii_unit u \<Longrightarrow> ex_lower_table u = [lower_unit u]"
  unfolding ex_lower_table_def lower_unit_def ascii_unit_def
  by (auto simp: word_le_nat_alt word_less_nat_alt unat_word_ariths)

lemma ex_toLowerCase_contract: "lowercase_contract ex_toLowerCase"
  unfolding lowercase_contract_def
proof (intro allI conjI impI)
  fix s
  show "(ex_toLowerCase s = []) = (s = [])"
    by (cases s) (auto simp: ex_toLowerCase_def ex_lower_table_def)
  show "ex_toLowerCase (ex_toLowerCase s) = ex_toLowerCase s"
    unfolding ex_toLowerCase_def
    by (induction s) (simp_all add: ex_table_idem)
  assume "list_all ascii_unit s"
  then show "ex_toLowerCase s = map lower_unit s"
    unfolding ex_toLowerCase_def
    by (induction s) (simp_all add: ex_table_ascii)
qed

text \<open>
  Claim C10, as stated: the empty extension and every extension outside the enumerated set
  get the class \<open>text\<close>, so that only the fixed list of binary and artifact extensions
  produces zero chunks. \<open>extensionToSplitter\<close> does return \<open>text\<close> for the empty extension,
  which is not in that list; but \<open>processFileContents\<close> never passes it the empty extension:
  it gives a path whose last segment is empty the class \<open>ignore\<close> itself. After the
  synchronization of \<open>main\<close> to a commit with the readable files \<open>notes.\<close> and \<open>notes.txt\<close>, the
  first is \<open>done\<close> and has no chunk, the second is \<open>fetched\<close> and has its chunk.
\<close>

theorem empty_extension_produces_no_chunk:
  "last_segment (units_of ''notes.'') = []
   \<and> [] \<notin> set ignored_exts
   \<and> extensionToSplitter ex_toLowerCase [] = ''text''
   \<and> split_type ex_toLowerCase (units_of ''notes.'') = ''ignore''
   \<and> read_chunks ex_env_notes ''/repos/repo'' ''notes.'' = Chunks [''a note'']
   \<and> map f_id (branch_files ex_db_notes 1) = [5, 6]
   \<and> map f_path (branch_files ex_db_notes 1) = [''notes.'', ''notes.txt'']
   \<and> map f_status (branch_files ex_db_notes 1) = [Done, Fetched]
   \<and> map fc_file_id (file_chunk ex_db_notes) = [6]
   \<and> map fc_content (file_chunk ex_db_notes) = [''a note'']"
  by code_simp

text \<open>
  Claim C10, amended. The dispatch from extension to chunking class is total and
  case-insensitive: every result is one of the classes of the table; the empty extension
  and every extension whose lower case is outside the enumerated labels get the class
  \<open>text\<close>; the class \<open>ignore\<close> is returned exactly for the non-empty extensions whose lower
  case is in the fixed list of binary and artifact extensions; two non-empty extensions
  with the same lower case get the same class, an extension of ASCII units and its upper
  case in particular. The file processor classes a path by the lower case of its last
  segment and gives the empty one the class \<open>ignore\<close> without calling the dispatch: a path is
  ignored exactly when that extension is empty or in the fixed list, and an ignored file is
  marked \<open>done\<close> and gets no chunk.
\<close>

theorem extensionToSplitter_dispatch:
  "extensionToSplitter lower e \<in> set splitter_classes
   \<and> extensionToSplitter lower [] = ''text''
   \<and> (lower e \<notin> set known_exts \<longrightarrow> extensionToSplitter lower e = ''text'')
   \<and> (extensionToSplitter lower e = ''ignore'' \<longleftrightarrow> e \<noteq> [] \<and> lower e \<in> set ignored_exts)
   \<and> (a \<noteq> [] \<and> b \<noteq> [] \<and> lower a = lower b
        \<longrightarrow> extensionToSplitter lower a = extensionToSplitter lower b)
   \<and> (lowercase_contract lower \<and> list_all ascii_unit e
        \<longrightarrow> extensionToSplitter lower (map upper_unit e) = extensionToSplitter lower e)
   \<and> (split_type lower p = ''ignore''
        \<longleftrightarrow> lower (last_segment p) = [] \<or> lower (lower (last_segment p)) \<in> set ignored_exts)
   \<and> (lowercase_contract lower
        \<longrightarrow> (split_type lower p = ''ignore''
             \<longleftrightarrow> last_segment p = [] \<or> lower (last_segment p) \<in> set ignored_exts))
   \<and> (split_type (js_toLowerCase env) (units_of (f_path file)) = ''ignore''
        \<longrightarrow> file_chunk (process_pending_file env repoPath d file) = file_chunk d
            \<and> file_tbl (process_pending_file env repoPath d file)
                = map (\<lambda>f. if f_id f = f_id file then f\<lparr>f_status := Done\<rparr> else f) (file_tbl d))"
proof -
  have c1: "extensionToSplitter lower e \<in> set splitter_classes"
    using switch_lookup_range [of switch_table "lower e"]
    unfolding extensionToSplitter_def splitter_classes_def by auto
  have c2: "extensionToSplitter lower [] = ''text''"
    by (simp add: extensionToSplitter_def)
  have c3: "lower e \<notin> set known_exts \<longrightarrow> extensionToSplitter lower e = ''text''"
    unfolding extensionToSplitter_def known_exts_def by (simp add: switch_lookup_notin)
  have ign: "extensionToSplitter lower x = ''ignore'' \<longleftrightarrow> x \<noteq> [] \<and> lower x \<in> set ignored_exts"
    for x
    unfolding extensionToSplitter_def using switch_lookup_ignore_iff [of "lower x"] by simp
  have c5: "a \<noteq> [] \<and> b \<noteq> [] \<and> lower a = lower b
        \<longrightarrow> extensionToSplitter lower a = extensionToSplitter lower b"
    unfolding extensionToSplitter_def by simp
  have c6: "lowercase_contract lower \<and> list_all ascii_unit e
        \<longrightarrow> extensionToSplitter lower (map upper_unit e) = extensionToSplitter lower e"
    unfolding extensionToSplitter_def by (simp add: lower_of_upper)
  have c7: "split_type lower p = ''ignore''
        \<longleftrightarrow> lower (last_segment p) = [] \<or> lower (lower (last_segment p)) \<in> set ignored_exts"
    unfolding split_type_def Let_def using ign [of "lower (last_segment p)"] by auto
  have c8: "lowercase_contract lower
        \<longrightarrow> (split_type lower p = ''ignore''
             \<longleftrightarrow> last_segment p = [] \<or> lower (last_segment p) \<in> set ignored_exts)"
  proof
    assume "lowercase_contract lower"
    then have "(lower (last_segment p) = [] \<longleftrightarrow> last_segment p = [])"
      and "lower (lower (last_segment p)) = lower (last_segment p)"
      unfolding lowercase_contract_def by blast+
    with c7 show "split_type lower p = ''ignore''
             \<longleftrightarrow> last_segment p = [] \<or> lower (last_segment p) \<in> set ignored_exts"
      by simp
  qed
  have c9: "split_type (js_toLowerCase env) (units_of (f_path file)) = ''ignore''
        \<longrightarrow> file_chunk (process_pending_file env repoPath d file) = file_chunk d
            \<and> file_tbl (process_pending_file env repoPath d file)
                = map (\<lambda>f. if f_id f = f_id file then f\<lparr>f_status := Done\<rparr> else f) (file_tbl d)"
    unfolding process_pending_file_def update_file_status_def by simp
  from c1 c2 c3 ign [of e] c5 c6 c7 c8 c9 show ?thesis by blast
qed

text \<open>Closed instances: \<open>loc\<close> followed by the Kelvin sign, \<open>SQL\<close> and \<open>sql\<close>, \<open>xyz\<close>, \<open>jpg\<close> and
  \<open>JPG\<close>, and the path \<open>notes.\<close>.\<close>

theorem extensionToSplitter_dispatch_witness:
  "lowercase_contract ex_toLowerCase
   \<and> extensionToSplitter ex_toLowerCase [0x6C, 0x6F, 0x63, 0x212A] = ''ignore''
   \<and> extensionToSplitter ex_toLowerCase (units_of ''SQL'')
       = extensionToSplitter ex_toLowerCase (units_of ''sql'')
   \<and> extensionToSplitter ex_toLowerCase (units_of ''xyz'') = ''text''
   \<and> extensionToSplitter ex_toLowerCase (map upper_unit (units_of ''jpg''))
       = extensionToSplitter ex_toLowerCase (units_of ''jpg'')
   \<and> split_type ex_toLowerCase (units_of ''notes.'') = ''ignore''
   \<and> file_chunk (process_pending_file ex_env ''/repos/repo'' ex_db ex_file_notes)
       = file_chunk ex_db
   \<and> map f_status (file_tbl (process_pending_file ex_env ''/repos/repo'' ex_db ex_file_notes))
       = [Done, Fetched, Fetched, Fetched]"
proof -
  let ?kelvin = "[0x6C, 0x6F, 0x63, 0x212A] :: js_string"
  have h1: "?kelvin \<noteq> [] \<and> ex_toLowerCase ?kelvin \<in> set ignored_exts" by code_simp
  have h2: "units_of ''SQL'' \<noteq> [] \<and> units_of ''sql'' \<noteq> []
            \<and> ex_toLowerCase (units_of ''SQL'') = ex_toLowerCase (units_of ''sql'')"
    by code_simp
  have h3: "ex_toLowerCase (units_of ''xyz'') \<notin> set known_exts" by code_simp
  have h4: "list_all ascii_unit (units_of ''jpg'')" by code_simp
  have h5: "last_segment (units_of ''notes.'') = []" by code_simp
  have h6: "js_toLowerCase ex_env = ex_toLowerCase" "f_path ex_file_notes = ''notes.''"
    "f_id ex_file_notes = 1"
    by (simp_all add: ex_env_def ex_file_notes_def)
  have h7: "map f_status
              (map (\<lambda>f. if f_id f = 1 then f\<lparr>f_status := Done\<rparr> else f) (file_tbl ex_db))
            = [Done, Fetched, Fetched, Fetched]"
    by code_simp
  note c = ex_toLowerCase_contract
  note t1 = extensionToSplitter_dispatch
    [of ex_toLowerCase ?kelvin "units_of ''SQL''" "units_of ''sql''" "units_of ''notes.''"
        ex_env ex_file_notes "''/repos/repo''" ex_db]
  note t2 = extensionToSplitter_dispatch
    [of ex_toLowerCase "units_of ''xyz''" "units_of ''SQL''" "units_of ''sql''" "units_of ''notes.''"
        ex_env ex_file_notes "''/repos/repo''" ex_db]
  note t3 = extensionToSplitter_dispatch
    [of ex_toLowerCase "units_of ''jpg''" "units_of ''SQL''" "units_of ''sql''" "units_of ''notes.''"
        ex_env ex_file_notes "''/repos/repo''" ex_db]
  from t1 h1 have r1: "extensionToSplitter ex_toLowerCase ?kelvin = ''ignore''" by blast
  from t1 h2 have r2: "extensionToSplitter ex_toLowerCase (units_of ''SQL'')
       = extensionToSplitter ex_toLowerCase (units_of ''sql'')" by blast
  from t2 h3 have r3: "extensionToSplitter ex_toLowerCase (units_of ''xyz'') = ''text''" by blast
  from t3 h4 c have r4: "extensionToSplitter ex_toLowerCase (map upper_unit (units_of ''jpg''))
       = extensionToSplitter ex_toLowerCase (units_of ''jpg'')" by blast
  from t1 c h5 have r5: "split_type ex_toLowerCase (units_of ''notes.'') = ''ignore''" by blast
  from t1 r5 have r6: "file_chunk (process_pending_file ex_env ''/repos/repo'' ex_db ex_file_notes)
         = file_chunk ex_db
       \<and> file_tbl (process_pending_file ex_env ''/repos/repo'' ex_db ex_file_notes)
         = map (\<lambda>f. if f_id f = 1 then f\<lparr>f_status := Done\<rparr> else f) (file_tbl ex_db)"
    unfolding h6 by blast
  from c r1 r2 r3 r4 r5 r6 h7 show ?thesis by simp
qed
section \<open>Behaviour of the SQL splitter\<close>

text \<open>
  Claim C5. The tokenizer is stated to split at the \<open>;\<close> that lie outside string
  literals and comments, and to yield as many statements as there are such terminators.
  The loop records that it is inside a string or a comment, but the test that ends a
  statement at \<open>;\<close> never consults that record: the statement below holds one terminator
  outside its single-quoted literal and is cut in two at the \<open>;\<close> inside the literal.
\<close>

theorem splitSQLStatements_splits_inside_string:
  "splitSQLStatements (''SELECT '' @ [CHR 0x27] @ ''a;b'' @ [CHR 0x27] @ '';'')
     = [''SELECT '' @ [CHR 0x27] @ ''a;'', ''b'' @ [CHR 0x27] @ '';'']
   \<and> spec_terminators Code (''SELECT '' @ [CHR 0x27] @ ''a;b'' @ [CHR 0x27] @ '';'') = 1"
  by code_simp

text \<open>The same holds in a line comment and in a block comment, whose opening and closing
  characters are moreover written twice into the statement.\<close>

lemma splitSQLStatements_splits_inside_comments:
  "splitSQLStatements ''SELECT 1 -- a;b'' = [''SELECT 1 --- a;'', ''b'']"
  "splitSQLStatements ''SELECT /* a;b */ 1;'' = [''SELECT //* a;'', ''b **/ 1;'']"
  by code_simp+

text \<open>A \<open>BEGIN\<close> that opens a block at top level is counted twice (depth 1 when the block
  is entered, then once more by the depth bookkeeping), so the matching \<open>END\<close> does not
  close the block; the last letter of a matched keyword is read again by the next
  iteration.\<close>

lemma splitSQLStatements_top_level_block:
  "splitSQLStatements ''BEGIN SELECT 1; END; SELECT 2;'' = [''BEGINN SELECT 1; ENDD; SELECT 2;'']"
  by code_simp

lemma splitSQLStatements_function:
  "splitSQLStatements ''CREATE FUNCTION f() BEGIN RETURN 1; END;''
     = [''CREATE FUNCTION f() BEGINN RETURN 1; END'', ''D;'']"
  by code_simp

text \<open>Text after the last terminator is a statement of its own when it is not blank.\<close>

lemma splitSQLStatements_unterminated:
  "splitSQLStatements ''SELECT 1; SELECT 2'' = [''SELECT 1;'', ''SELECT 2'']"
  by code_simp

text \<open>On a plain text the tokenizer cuts at every \<open>;\<close> and nowhere else, and a text after the
  last \<open>;\<close> that is not blank is one more statement.\<close>

lemma sql_step_plain:
  assumes "top_level s" and "c \<noteq> CHR 0x27" and "c \<noteq> CHR 0x22"
    and "no_construct_start u"
  shows "sql_step (c # cs) u s
           = (if c = CHR '';'' then
                s\<lparr>statements := statements s @ [trim (currentStatement s @ [c])],
                  currentStatement := []\<rparr>
              else s\<lparr>currentStatement := currentStatement s @ [c]\<rparr>, 1)"
  using assms
  unfolding sql_step_def first_chain_def second_chain_def top_level_def no_construct_start_def
    push_statement_def Let_def
  by simp

lemma splitSQL_loop_plain:
  "plain_sql rest \<Longrightarrow> top_level s \<Longrightarrow>
   splitSQL_loop rest (toUpperCase rest) s
     = s\<lparr>statements := statements s @ fst (cut_at_semicolons (currentStatement s) rest),
         currentStatement := snd (cut_at_semicolons (currentStatement s) rest)\<rparr>"
proof (induction rest arbitrary: s)
  case Nil
  then show ?case by (simp add: splitSQL_loop.simps [of "[]"])
next
  case (Cons c cs)
  from Cons.prems(1) have c: "c \<noteq> CHR 0x27" "c \<noteq> CHR 0x22"
    and u: "no_construct_start (toUpperCase (c # cs))" and p: "plain_sql cs"
    by simp_all
  note step = sql_step_plain [OF Cons.prems(2) c u, of cs]
  let ?s' = "fst (sql_step (c # cs) (toUpperCase (c # cs)) s)"
  have top: "top_level ?s'" using Cons.prems(2) by (simp add: step top_level_def)
  have up: "drop (Suc 0) (toUpperCase (c # cs)) = toUpperCase cs" by (simp add: toUpperCase_def)
  have "splitSQL_loop (c # cs) (toUpperCase (c # cs)) s
          = splitSQL_loop (drop 1 (c # cs)) (drop 1 (toUpperCase (c # cs))) ?s'"
    by (subst splitSQL_loop.simps) (simp add: step)
  also have "\<dots> = splitSQL_loop cs (toUpperCase cs) ?s'"
    by (simp add: up)
  also have "\<dots> = ?s'\<lparr>statements := statements ?s' @ fst (cut_at_semicolons (currentStatement ?s') cs),
         currentStatement := snd (cut_at_semicolons (currentStatement ?s') cs)\<rparr>"
    by (rule Cons.IH [OF p top])
  finally show ?case by (simp add: step)
qed

lemma cut_count: "length (fst (cut_at_semicolons cur t)) = count_list t (CHR '';'')"
  by (induction t arbitrary: cur) auto

lemma splitSQLStatements_plain:
  assumes "plain_sql text"
  shows "splitSQLStatements text
           = fst (cut_at_semicolons [] text)
             @ (if trim (snd (cut_at_semicolons [] text)) \<noteq> []
                then [trim (snd (cut_at_semicolons [] text))] else [])"
    and "length (splitSQLStatements text)
           = count_list text (CHR '';'')
             + (if trim (snd (cut_at_semicolons [] text)) \<noteq> [] then 1 else 0)"
proof -
  have top: "top_level sql_init" by (simp add: top_level_def sql_init_def)
  show "splitSQLStatements text
           = fst (cut_at_semicolons [] text)
             @ (if trim (snd (cut_at_semicolons [] text)) \<noteq> []
                then [trim (snd (cut_at_semicolons [] text))] else [])"
    unfolding splitSQLStatements_def splitSQL_loop_plain [OF assms top]
    by (simp add: sql_init_def Let_def)
  then show "length (splitSQLStatements text)
           = count_list text (CHR '';'')
             + (if trim (snd (cut_at_semicolons [] text)) \<noteq> [] then 1 else 0)"
    by (simp add: cut_count)
qed

text \<open>The scenario of the specification: two statements.\<close>

lemma splitSQLStatements_scenario:
  "splitSQLStatements ''CREATE TABLE t(x int); INSERT INTO t VALUES (1),(2),(3);''
     = [''CREATE TABLE t(x int);'', ''INSERT INTO t VALUES (1),(2),(3);'']"
  by code_simp

text \<open>How \<open>parseValues\<close> runs over a tuple of plain characters.\<close>

lemma parseValues_loop_plain:
  "list_all plain body \<Longrightarrow> \<not> escapeNext s \<Longrightarrow> \<not> inString s \<Longrightarrow>
   parseValues_loop (body @ rest) s = parseValues_loop rest (s\<lparr>currentTuple := currentTuple s @ body\<rparr>)"
proof (induction body arbitrary: s)
  case Nil
  then show ?case by simp
next
  case (Cons c body)
  from Cons.prems have c: "plain c" and b: "list_all plain body" by simp_all
  let ?s = "s\<lparr>currentTuple := currentTuple s @ [c]\<rparr>"
  have "parseValues_loop ((c # body) @ rest) s = parseValues_loop (body @ rest) ?s"
    using c Cons.prems(2,3) by (simp add: plain_def Let_def)
  also have "\<dots> = parseValues_loop rest (?s\<lparr>currentTuple := currentTuple ?s @ body\<rparr>)"
    using Cons.IH [OF b, of ?s] Cons.prems(2,3) by simp
  finally show ?case by simp
qed

lemma parseValues_loop_tuple:
  assumes "list_all plain body" and "\<not> escapeNext s" and "\<not> inString s" and "nestingLevel s = 0"
  shows "parseValues_loop (''('' @ body @ '')'' @ rest) s
           = parseValues_loop (dropWhile is_tuple_sep rest)
               (s\<lparr>nestingLevel := 0,
                  valuesArray := valuesArray s @ [trim (currentTuple s @ ''('' @ body @ '')'')],
                  currentTuple := []\<rparr>)"
proof -
  let ?s1 = "s\<lparr>currentTuple := currentTuple s @ ''('', nestingLevel := 1\<rparr>"
  have "parseValues_loop (''('' @ body @ '')'' @ rest) s = parseValues_loop (body @ '')'' @ rest) ?s1"
    using assms by (simp add: Let_def)
  also have "\<dots> = parseValues_loop ('')'' @ rest) (?s1\<lparr>currentTuple := currentTuple ?s1 @ body\<rparr>)"
    using parseValues_loop_plain [OF assms(1), of ?s1] assms by simp
  also have "\<dots> = parseValues_loop (dropWhile is_tuple_sep rest)
               (s\<lparr>nestingLevel := 0,
                  valuesArray := valuesArray s @ [trim (currentTuple s @ ''('' @ body @ '')'')],
                  currentTuple := []\<rparr>)"
    using assms by (simp add: Let_def)
  finally show ?thesis .
qed


lemma plain_digits: "list_all plain (replicate n (CHR ''1''))"
  by (simp add: list_all_iff plain_def)

lemma trim_value_tuple:
  "trim ('' '' @ value_tuple n) = value_tuple n" "trim (value_tuple n) = value_tuple n"
  by (simp_all add: trim_def value_tuple_def is_space_def)

lemma parseValues_two_tuples:
  "parseValues ('' '' @ value_tuple a @ '','' @ value_tuple b @ '';'') = [value_tuple a, value_tuple b]"
proof -
  let ?T = "\<lambda>n. ''('' @ replicate n (CHR ''1'') @ '')''"
  let ?s0 = "pv_init\<lparr>currentTuple := '' ''\<rparr>"
  let ?s1 = "?s0\<lparr>nestingLevel := 0,
                  valuesArray := valuesArray ?s0 @ [trim (currentTuple ?s0 @ ?T a)],
                  currentTuple := []\<rparr>"
  let ?s2 = "?s1\<lparr>nestingLevel := 0,
                  valuesArray := valuesArray ?s1 @ [trim (currentTuple ?s1 @ ?T b)],
                  currentTuple := []\<rparr>"
  have "parseValues ('' '' @ value_tuple a @ '','' @ value_tuple b @ '';'')
          = parseValues_loop (?T a @ '','' @ ?T b @ '';'') ?s0"
    unfolding parseValues_def value_tuple_def by (simp add: pv_init_def Let_def)
  also have "\<dots> = parseValues_loop (dropWhile is_tuple_sep ('','' @ ?T b @ '';'')) ?s1"
    using parseValues_loop_tuple [OF plain_digits, of ?s0 a "'','' @ ?T b @ '';''"]
    by (simp add: pv_init_def)
  also have "dropWhile is_tuple_sep ('','' @ ?T b @ '';'') = ?T b @ '';''"
    by (simp add: is_tuple_sep_def)
  also have "parseValues_loop (?T b @ '';'') ?s1
               = parseValues_loop (dropWhile is_tuple_sep '';'') ?s2"
    using parseValues_loop_tuple [OF plain_digits, of ?s1 b "'';''"]
    by (simp add: pv_init_def)
  also have "\<dots> = [value_tuple a, value_tuple b]"
    using trim_value_tuple [of a] trim_value_tuple [of b]
    by (simp add: is_tuple_sep_def pv_init_def Let_def value_tuple_def)
  finally show ?thesis .
qed

lemma indexOf_values:
  "indexOf (toUpperCase (''INSERT INTO t VALUES '' @ rest)) ''VALUES'' = Some 14"
  by (simp add: toUpperCase_def upper_char_def upper_letters_def lower_letters_def)

text \<open>
  Claim C6. Splitting an \<open>INSERT\<close> is stated to keep every produced statement within
  the character budget unless one tuple alone is over it. The length test counts one
  character for ``\<open>,\<close> or \<open>;\<close>'', and a statement that gains a further tuple gains both:
  with the budget that \<open>splitDocument\<close> configures, two tuples of 11364 characters are
  joined into a statement that is one character over the budget, although each of them
  alone gives a statement within it.
\<close>

theorem splitInsertStatement_exceeds_configured_budget:
  "splitInsertStatement CHUNK_SIZE_CHARACTERS
       (''INSERT INTO t VALUES '' @ value_tuple 11362 @ '','' @ value_tuple 11362 @ '';'')
     = [''INSERT INTO t VALUES '' @ value_tuple 11362 @ '','' @ value_tuple 11362 @ '';'']
   \<and> length (''INSERT INTO t VALUES '' @ value_tuple 11362 @ '','' @ value_tuple 11362 @ '';'')
       = CHUNK_SIZE_CHARACTERS + 1
   \<and> length (''INSERT INTO t VALUES '' @ value_tuple 11362 @ '';'') \<le> CHUNK_SIZE_CHARACTERS"
proof -
  define tail where "tail = value_tuple 11362 @ '','' @ value_tuple 11362 @ '';''"
  define stmt where "stmt = ''INSERT INTO t VALUES '' @ tail"
  have len: "length (value_tuple n) = n + 2" for n by (simp add: value_tuple_def)
  have ne: "value_tuple n \<noteq> []" for n by (simp add: value_tuple_def)
  have idx: "indexOf (toUpperCase stmt) ''VALUES'' = Some 14"
    unfolding stmt_def by (rule indexOf_values)
  have tk: "take (14 + length ''VALUES'') stmt @ '' '' = ''INSERT INTO t VALUES ''"
    unfolding stmt_def by simp
  have dr: "drop (14 + length ''VALUES'') stmt = '' '' @ tail"
    unfolding stmt_def by simp
  have pv: "parseValues ('' '' @ tail) = [value_tuple 11362, value_tuple 11362]"
    unfolding tail_def by (rule parseValues_two_tuples)
  have "splitInsertStatement CHUNK_SIZE_CHARACTERS stmt
          = insert_loop CHUNK_SIZE_CHARACTERS ''INSERT INTO t VALUES ''
              [value_tuple 11362, value_tuple 11362] [] []"
    unfolding splitInsertStatement_def by (simp only: idx option.case Let_def tk dr pv)
  also have "\<dots> = [''INSERT INTO t VALUES '' @ value_tuple 11362 @ '','' @ value_tuple 11362 @ '';'']"
    by (simp add: len ne Let_def CHUNK_SIZE_CHARACTERS_def)
  finally have "splitInsertStatement CHUNK_SIZE_CHARACTERS stmt
          = [''INSERT INTO t VALUES '' @ value_tuple 11362 @ '','' @ value_tuple 11362 @ '';'']" .
  then show ?thesis
    unfolding stmt_def tail_def by (simp add: len CHUNK_SIZE_CHARACTERS_def)
qed

text \<open>The same with a budget of 28 and the tuples \<open>(1)\<close> and \<open>(2)\<close>.\<close>

lemma splitInsertStatement_exceeds_small_budget:
  "splitInsertStatement 28 ''INSERT INTO t VALUES (1),(2);'' = [''INSERT INTO t VALUES (1),(2);'']
   \<and> length ''INSERT INTO t VALUES (1),(2);'' = 29
   \<and> parseValues '' (1),(2);'' = [''(1)'', ''(2)'']
   \<and> length (''INSERT INTO t VALUES '' @ ''(1)'' @ '';'') = 25
   \<and> length (''INSERT INTO t VALUES '' @ ''(2)'' @ '';'') = 25"
  by code_simp

text \<open>The excess does not depend on the budget: whenever the test admits a further tuple
  with equality, the statement that is flushed is one character over.\<close>

lemma insert_loop_one_over:
  assumes "currentValues \<noteq> []"
    and "length insertIntoPart + length currentValues + length valueTuple + 1 = maxCharacters"
  shows "insert_loop maxCharacters insertIntoPart [valueTuple] currentValues acc
           = acc @ [insertIntoPart @ currentValues @ '','' @ valueTuple @ '';'']"
    and "length (insertIntoPart @ currentValues @ '','' @ valueTuple @ '';'') = maxCharacters + 1"
  using assms by simp_all

text \<open>The tuples themselves are kept, in their order, and none is cut.\<close>

lemma splitText_scenario:
  "splitText 28 ''CREATE TABLE t(x int); INSERT INTO t VALUES (1),(2),(3);''
     = [''CREATE TABLE t(x int);'', ''INSERT INTO t VALUES (1),(2);'', ''INSERT INTO t VALUES (3);'']"
  by code_simp

section \<open>Behaviour of the file pattern filter\<close>

text \<open>
  Claim C7. The filter is stated to follow glob semantics in which \<open>*\<close> stays within one
  path segment. Both \<open>**\<close> and \<open>*\<close> become the \<open>%\<close> of \<open>LIKE\<close>, which matches \<open>/\<close> as
  well: the include pattern \<open>src/*.js\<close> selects the path \<open>src/a/b.js\<close>, which the glob
  semantics of the specification rejects, and the scan returns the chunk of that file.
\<close>

theorem file_pattern_star_crosses_segments:
  "globToSqlPattern ''src/*.js'' = ''src/%.js''
   \<and> conds_hold (createFilePatternCondition (Some [''src/*.js'']) None) ''src/a/b.js''
   \<and> \<not> spec_path_selected [''src/*.js''] [] ''src/a/b.js''
   \<and> condition_sql (createFilePatternCondition (Some [''src/*.js'']) None)
       = '' AND (f.path LIKE 'src/%.js')''
   \<and> map_sum error_text (map sr_path)
        (scan ex_env FirstScan ex_db_nested ex_vector 1
           (createFilePatternCondition (Some [''src/*.js'']) None) 10)
       = Inr [''src/a/b.js'']"
  by code_simp

section \<open>Properties of the synchronizer\<close>

lemma map_set_fresh: "k \<notin> fst ` set m \<Longrightarrow> map_set m k v = m @ [(k, v)]"
  by (induction m) auto

lemma existingFileMap_distinct:
  "distinct (map ef_path es) \<Longrightarrow> set (map ef_path es) \<inter> fst ` set m = {} \<Longrightarrow>
   fold (\<lambda>file m. map_set m (ef_path file) file) es m = m @ map (\<lambda>e. (ef_path e, e)) es"
proof (induction es arbitrary: m)
  case Nil
  then show ?case by simp
next
  case (Cons e es)
  have fresh: "ef_path e \<notin> fst ` set m" using Cons.prems(2) by auto
  have "set (map ef_path es) \<inter> fst ` set (m @ [(ef_path e, e)]) = {}"
    using Cons.prems by auto
  with Cons.IH [of "m @ [(ef_path e, e)]"] Cons.prems(1) fresh show ?case
    by (simp add: map_set_fresh)
qed

lemma map_of_map_delete_other: "k \<noteq> k' \<Longrightarrow> map_of (map_delete m k) k' = map_of m k'"
  unfolding map_delete_def by (induction m) auto

lemma sync_file_ghost:
  assumes "sync_file repoId branchId f st = Inr st'"
  shows "existingFileMap st' = map_delete (existingFileMap st) (rf_path f)"
    and "new_paths st' = new_paths st @ (if is_new (existingFileMap st) f then [rf_path f] else [])"
    and "updated_paths st' = updated_paths st @ (if is_updated (existingFileMap st) f then [rf_path f] else [])"
    and "unchanged_paths st' = unchanged_paths st @ (if is_unchanged (existingFileMap st) f then [rf_path f] else [])"
    and "removed_paths st' = removed_paths st"
  using assms
  unfolding sync_file_def Let_def push_file_def is_new_def is_updated_def is_unchanged_def
  by (auto split: option.splits if_splits sum.splits prod.splits)

lemma filter_cong_paths:
  assumes "rf_path f \<notin> set (map rf_path fs)"
  shows "filter (is_new (map_delete m (rf_path f))) fs = filter (is_new m) fs"
    and "filter (is_updated (map_delete m (rf_path f))) fs = filter (is_updated m) fs"
    and "filter (is_unchanged (map_delete m (rf_path f))) fs = filter (is_unchanged m) fs"
proof -
  have eq: "map_of (map_delete m (rf_path f)) (rf_path x) = map_of m (rf_path x)"
    if "x \<in> set fs" for x
  proof -
    from that assms have "rf_path f \<noteq> rf_path x" by auto
    then show ?thesis by (rule map_of_map_delete_other)
  qed
  show "filter (is_new (map_delete m (rf_path f))) fs = filter (is_new m) fs"
    by (rule filter_cong) (simp_all add: is_new_def eq)
  show "filter (is_updated (map_delete m (rf_path f))) fs = filter (is_updated m) fs"
    by (rule filter_cong) (simp_all add: is_updated_def eq)
  show "filter (is_unchanged (map_delete m (rf_path f))) fs = filter (is_unchanged m) fs"
    by (rule filter_cong) (simp_all add: is_unchanged_def eq)
qed

lemma sync_files_ghost:
  assumes "distinct (map rf_path fs)" and "sync_files repoId branchId fs st = Inr st'"
  shows "existingFileMap st' = filter (\<lambda>kv. fst kv \<notin> set (map rf_path fs)) (existingFileMap st)
    \<and> new_paths st' = new_paths st @ map rf_path (filter (is_new (existingFileMap st)) fs)
    \<and> updated_paths st' = updated_paths st @ map rf_path (filter (is_updated (existingFileMap st)) fs)
    \<and> unchanged_paths st' = unchanged_paths st @ map rf_path (filter (is_unchanged (existingFileMap st)) fs)
    \<and> removed_paths st' = removed_paths st"
  using assms
proof (induction fs arbitrary: st)
  case Nil
  then show ?case by simp
next
  case (Cons f fs)
  from Cons.prems(2) obtain st1 where
    s1: "sync_file repoId branchId f st = Inr st1" and
    s2: "sync_files repoId branchId fs st1 = Inr st'"
    by (auto split: sum.splits)
  have d: "distinct (map rf_path fs)" and nf: "rf_path f \<notin> set (map rf_path fs)"
    using Cons.prems(1) by auto
  note g = sync_file_ghost [OF s1]
  note ih = Cons.IH [OF d s2]
  note fc = filter_cong_paths [OF nf, of "existingFileMap st"]
  have m: "existingFileMap st' = filter (\<lambda>kv. fst kv \<notin> set (map rf_path (f # fs))) (existingFileMap st)"
    using ih g(1) by (auto simp: map_delete_def intro: filter_cong)
  show ?case
    using ih g fc m by simp
qed

lemma remove_fold_ghost:
  "new_paths (fold (remove_file b) es st) = new_paths st
   \<and> updated_paths (fold (remove_file b) es st) = updated_paths st
   \<and> unchanged_paths (fold (remove_file b) es st) = unchanged_paths st
   \<and> removed_paths (fold (remove_file b) es st) = removed_paths st @ map fst es"
  by (induction es arbitrary: st) (auto simp: remove_file_def Let_def)


lemma map_of_existing:
  assumes "distinct (map ef_path es)"
  shows "map_of (map (\<lambda>e. (ef_path e, e)) es) p = Some e \<longleftrightarrow> e \<in> set es \<and> ef_path e = p"
proof -
  have "distinct (map fst (map (\<lambda>e. (ef_path e, e)) es))"
    using assms by (simp add: comp_def)
  then show ?thesis by (auto simp: map_of_eq_Some_iff)
qed

lemma kinds_existing:
  assumes "distinct (map ef_path es)"
  shows "is_new (map (\<lambda>e. (ef_path e, e)) es) f \<longleftrightarrow> rf_path f \<notin> set (map ef_path es)"
    and "is_updated (map (\<lambda>e. (ef_path e, e)) es) f
           \<longleftrightarrow> list_ex (\<lambda>e. ef_path e = rf_path f \<and> ef_sha e \<noteq> rf_sha f) es"
    and "is_unchanged (map (\<lambda>e. (ef_path e, e)) es) f
           \<longleftrightarrow> list_ex (\<lambda>e. ef_path e = rf_path f \<and> ef_sha e = rf_sha f) es"
proof -
  let ?m = "map (\<lambda>e. (ef_path e, e)) es"
  have m: "map_of ?m (rf_path f) = Some e \<longleftrightarrow> e \<in> set es \<and> ef_path e = rf_path f" for e
    using map_of_existing [OF assms] .
  show "is_new ?m f \<longleftrightarrow> rf_path f \<notin> set (map ef_path es)"
    unfolding is_new_def by (auto simp: map_of_eq_None_iff comp_def image_iff)
  show "is_updated ?m f \<longleftrightarrow> list_ex (\<lambda>e. ef_path e = rf_path f \<and> ef_sha e \<noteq> rf_sha f) es"
  proof (cases "map_of ?m (rf_path f)")
    case None
    then have "\<And>e. \<not> (e \<in> set es \<and> ef_path e = rf_path f)" using m by simp
    with None show ?thesis unfolding is_updated_def list_ex_iff by auto
  next
    case (Some a)
    then have mem: "a \<in> set es" and pa: "ef_path a = rf_path f"
      using m [of a] by simp_all
    have uniq: "e = a" if "e \<in> set es" "ef_path e = rf_path f" for e
      using that Some m [of e] by simp
    have "is_updated ?m f \<longleftrightarrow> ef_sha a \<noteq> rf_sha f"
      unfolding is_updated_def Some by simp
    also have "\<dots> \<longleftrightarrow> (\<exists>e\<in>set es. ef_path e = rf_path f \<and> ef_sha e \<noteq> rf_sha f)"
      using mem pa uniq by blast
    finally show ?thesis unfolding list_ex_iff .
  qed
  show "is_unchanged ?m f \<longleftrightarrow> list_ex (\<lambda>e. ef_path e = rf_path f \<and> ef_sha e = rf_sha f) es"
  proof (cases "map_of ?m (rf_path f)")
    case None
    then have "\<And>e. \<not> (e \<in> set es \<and> ef_path e = rf_path f)" using m by simp
    with None show ?thesis unfolding is_unchanged_def list_ex_iff by auto
  next
    case (Some a)
    then have mem: "a \<in> set es" and pa: "ef_path a = rf_path f"
      using m [of a] by simp_all
    have uniq: "e = a" if "e \<in> set es" "ef_path e = rf_path f" for e
      using that Some m [of e] by simp
    have "is_unchanged ?m f \<longleftrightarrow> ef_sha a = rf_sha f"
      unfolding is_unchanged_def Some by simp
    also have "\<dots> \<longleftrightarrow> (\<exists>e\<in>set es. ef_path e = rf_path f \<and> ef_sha e = rf_sha f)"
      using mem pa uniq by blast
    finally show ?thesis unfolding list_ex_iff .
  qed
qed


lemma sync_file_new_effect:
  assumes "map_of (existingFileMap s) (rf_path file) = None"
    and "sync_file repoId branchId file s = Inr s'"
  shows "new_file_effect repoId branchId file s s'"
  using assms
  unfolding sync_file_def new_file_effect_def Let_def push_file_def insert_association_def
    insert_file_def association_exists_def select_file_def
  by (auto split: option.splits if_splits sum.splits prod.splits)


text \<open>
  The sorting of the paths by a run of the transaction body that returns. For a listing
  with pairwise different paths and a branch whose persisted files have pairwise different
  paths: \<open>new\<close> are the listed paths that the branch did not have, \<open>updated\<close> the listed
  paths that it had with another content identifier, \<open>unchanged\<close> the listed paths that it had
  with the same identifier, \<open>removed\<close> the paths it had that are not listed. No path is in two
  of the four, none is twice in one, and together they are the paths of the two listings.
  For an entry whose path the branch did not have, an existing file row of the repository
  with that path and identifier is reused and only associated, and otherwise a row with
  status \<open>pending\<close> is inserted and associated.
\<close>

lemma processFiles_partition:
  assumes L1: "distinct (map rf_path L1)"
    and L0: "distinct (map ef_path (existingFiles d branchId))"
    and run: "processFiles_body repoId branchId L1 d = Inr st"
  shows "new_paths st
           = map rf_path (filter (\<lambda>f. rf_path f \<notin> set (map ef_path (existingFiles d branchId))) L1)
     \<and> updated_paths st
           = map rf_path
               (filter (\<lambda>f. list_ex (\<lambda>e. ef_path e = rf_path f \<and> ef_sha e \<noteq> rf_sha f)
                                 (existingFiles d branchId)) L1)
     \<and> unchanged_paths st
           = map rf_path
               (filter (\<lambda>f. list_ex (\<lambda>e. ef_path e = rf_path f \<and> ef_sha e = rf_sha f)
                                 (existingFiles d branchId)) L1)
     \<and> removed_paths st
           = filter (\<lambda>p. p \<notin> set (map rf_path L1)) (map ef_path (existingFiles d branchId))
     \<and> distinct (new_paths st @ updated_paths st @ unchanged_paths st @ removed_paths st)
     \<and> set (new_paths st @ updated_paths st @ unchanged_paths st @ removed_paths st)
           = set (map rf_path L1) \<union> set (map ef_path (existingFiles d branchId))
     \<and> (\<forall>file s s'. map_of (existingFileMap s) (rf_path file) = None
             \<and> sync_file repoId branchId file s = Inr s'
           \<longrightarrow> new_file_effect repoId branchId file s s')"
proof -
  let ?L0 = "existingFiles d branchId"
  let ?M = "map (\<lambda>e. (ef_path e, e)) ?L0"
  have M: "existingFileMap (sync_init d branchId) = ?M"
    using existingFileMap_distinct [OF L0, of "[]"] by (simp add: sync_init_def)
  from run obtain st1 where
    loop: "sync_files repoId branchId L1 (sync_init d branchId) = Inr st1" and
    st: "st = fold (remove_file branchId) (existingFileMap st1) st1"
    unfolding processFiles_body_def by (auto split: sum.splits)
  note g = sync_files_ghost [OF L1 loop, unfolded M]
  note r = remove_fold_ghost [of branchId "existingFileMap st1" st1]
  have k: "is_new ?M = (\<lambda>f. rf_path f \<notin> set (map ef_path ?L0))"
    "is_updated ?M = (\<lambda>f. list_ex (\<lambda>e. ef_path e = rf_path f \<and> ef_sha e \<noteq> rf_sha f) ?L0)"
    "is_unchanged ?M = (\<lambda>f. list_ex (\<lambda>e. ef_path e = rf_path f \<and> ef_sha e = rf_sha f) ?L0)"
    by (rule ext, rule kinds_existing [OF L0])+
  have init: "new_paths (sync_init d branchId) = []" "updated_paths (sync_init d branchId) = []"
    "unchanged_paths (sync_init d branchId) = []" "removed_paths (sync_init d branchId) = []"
    by (simp_all add: sync_init_def)
  have n: "new_paths st = map rf_path (filter (\<lambda>f. rf_path f \<notin> set (map ef_path ?L0)) L1)"
    using g r st init k(1) by simp
  have u: "updated_paths st = map rf_path
      (filter (\<lambda>f. list_ex (\<lambda>e. ef_path e = rf_path f \<and> ef_sha e \<noteq> rf_sha f) ?L0) L1)"
    using g r st init k(2) by simp
  have c: "unchanged_paths st = map rf_path
      (filter (\<lambda>f. list_ex (\<lambda>e. ef_path e = rf_path f \<and> ef_sha e = rf_sha f) ?L0) L1)"
    using g r st init k(3) by simp
  have rm: "removed_paths st = filter (\<lambda>p. p \<notin> set (map rf_path L1)) (map ef_path ?L0)"
    using g r st init by (simp add: filter_map comp_def)
  have inj: "inj_on rf_path (set L1)" using L1 by (simp add: distinct_map)
  have dn: "distinct (new_paths st)" and du: "distinct (updated_paths st)"
    and dc: "distinct (unchanged_paths st)"
    unfolding n u c using L1 by (simp_all add: distinct_map_filter)
  have dr: "distinct (removed_paths st)" unfolding rm using L0 by simp
  have uniq0: "e = e'" if "e \<in> set ?L0" "e' \<in> set ?L0" "ef_path e = ef_path e'" for e e'
    using that L0 by (auto simp: distinct_map dest: inj_onD)
  have new_out: "set (new_paths st) \<inter> set (map ef_path ?L0) = {}"
    unfolding n by auto
  have upd_in: "set (updated_paths st) \<subseteq> set (map ef_path ?L0)"
  proof
    fix p assume "p \<in> set (updated_paths st)"
    then show "p \<in> set (map ef_path ?L0)"
      unfolding u list_ex_iff by (auto intro: rev_image_eqI)
  qed
  have unch_in: "set (unchanged_paths st) \<subseteq> set (map ef_path ?L0)"
  proof
    fix p assume "p \<in> set (unchanged_paths st)"
    then show "p \<in> set (map ef_path ?L0)"
      unfolding c list_ex_iff by (auto intro: rev_image_eqI)
  qed
  have nu: "set (new_paths st) \<inter> set (updated_paths st) = {}"
    using new_out upd_in by blast
  have nc: "set (new_paths st) \<inter> set (unchanged_paths st) = {}"
    using new_out unch_in by blast
  have uc: "set (updated_paths st) \<inter> set (unchanged_paths st) = {}"
  proof -
    have False if "f \<in> set L1" "f' \<in> set L1" "rf_path f = rf_path f'"
      "e \<in> set ?L0" "ef_path e = rf_path f" "ef_sha e \<noteq> rf_sha f"
      "e' \<in> set ?L0" "ef_path e' = rf_path f'" "ef_sha e' = rf_sha f'" for f f' e e'
    proof -
      from that inj have "f = f'" by (auto dest: inj_onD)
      moreover from that have "e = e'" by (intro uniq0) simp_all
      ultimately show False using that by simp
    qed
    then show ?thesis unfolding u c list_ex_iff by auto blast
  qed
  have xr: "(set (new_paths st) \<union> set (updated_paths st) \<union> set (unchanged_paths st))
              \<inter> set (removed_paths st) = {}"
    unfolding n u c rm by auto
  have dist: "distinct (new_paths st @ updated_paths st @ unchanged_paths st @ removed_paths st)"
    using dn du dc dr nu nc uc xr by auto
  have cover: "set (new_paths st @ updated_paths st @ unchanged_paths st @ removed_paths st)
           = set (map rf_path L1) \<union> set (map ef_path ?L0)"
  proof -
    have "rf_path f \<in> set (new_paths st) \<union> set (updated_paths st) \<union> set (unchanged_paths st)"
      if "f \<in> set L1" for f
    proof (cases "rf_path f \<in> set (map ef_path ?L0)")
      case False
      with that show ?thesis unfolding n by auto
    next
      case True
      then obtain e where "e \<in> set ?L0" "ef_path e = rf_path f" by auto
      with that show ?thesis unfolding u c list_ex_iff
        by (cases "ef_sha e = rf_sha f") auto
    qed
    moreover have "set (new_paths st) \<union> set (updated_paths st) \<union> set (unchanged_paths st)
        \<subseteq> set (map rf_path L1)"
      unfolding n u c by auto
    moreover have "set (removed_paths st) = set (map ef_path ?L0) - set (map rf_path L1)"
      unfolding rm by auto
    ultimately show ?thesis by auto
  qed
  have step: "\<forall>file s s'. map_of (existingFileMap s) (rf_path file) = None
             \<and> sync_file repoId branchId file s = Inr s'
           \<longrightarrow> new_file_effect repoId branchId file s s'"
    using sync_file_new_effect by blast
  from n u c rm dist cover step show ?thesis by blast
qed

text \<open>A closed instance of the run that the theorem is about.\<close>

lemma processFiles_partition_instance:
  "distinct (map rf_path ex_listing)
   \<and> distinct (map ef_path (existingFiles ex_db 1))
   \<and> \<not> isl (processFiles_body 1 1 ex_listing ex_db)
   \<and> new_paths (projr (processFiles_body 1 1 ex_listing ex_db))
       = [''shared.ts'', ''fresh.ts'', ''missing.ts'']
   \<and> updated_paths (projr (processFiles_body 1 1 ex_listing ex_db)) = [''x.ts'']
   \<and> unchanged_paths (projr (processFiles_body 1 1 ex_listing ex_db)) = [''keep.ts'']
   \<and> removed_paths (projr (processFiles_body 1 1 ex_listing ex_db)) = [''gone.ts'']
   \<and> map_of (existingFileMap (sync_init ex_db 1)) (rf_path (ex_listing ! 3)) = None
   \<and> \<not> isl (sync_file 1 1 (ex_listing ! 3) (sync_init ex_db 1))
   \<and> new_file_effect 1 1 (ex_listing ! 3) (sync_init ex_db 1)
         (projr (sync_file 1 1 (ex_listing ! 3) (sync_init ex_db 1)))"
proof -
  have h1: "distinct (map rf_path ex_listing)" by code_simp
  have h2: "distinct (map ef_path (existingFiles ex_db 1))" by code_simp
  have h3: "\<not> isl (processFiles_body 1 1 ex_listing ex_db)" by code_simp
  then obtain st where run: "processFiles_body 1 1 ex_listing ex_db = Inr st"
    by (cases "processFiles_body 1 1 ex_listing ex_db") auto
  have h4: "map_of (existingFileMap (sync_init ex_db 1)) (rf_path (ex_listing ! 3)) = None"
    by code_simp
  have h5: "\<not> isl (sync_file 1 1 (ex_listing ! 3) (sync_init ex_db 1))" by code_simp
  then obtain s' where step: "sync_file 1 1 (ex_listing ! 3) (sync_init ex_db 1) = Inr s'"
    by (cases "sync_file 1 1 (ex_listing ! 3) (sync_init ex_db 1)") auto
  have r1: "map rf_path (filter (\<lambda>f. rf_path f \<notin> set (map ef_path (existingFiles ex_db 1)))
              ex_listing) = [''shared.ts'', ''fresh.ts'', ''missing.ts'']"
    by code_simp
  have r2: "map rf_path
              (filter (\<lambda>f. list_ex (\<lambda>e. ef_path e = rf_path f \<and> ef_sha e \<noteq> rf_sha f)
                                (existingFiles ex_db 1)) ex_listing) = [''x.ts'']"
    by code_simp
  have r3: "map rf_path
              (filter (\<lambda>f. list_ex (\<lambda>e. ef_path e = rf_path f \<and> ef_sha e = rf_sha f)
                                (existingFiles ex_db 1)) ex_listing) = [''keep.ts'']"
    by code_simp
  have r4: "filter (\<lambda>p. p \<notin> set (map rf_path ex_listing))
              (map ef_path (existingFiles ex_db 1)) = [''gone.ts'']"
    by code_simp
  note t = processFiles_partition [OF h1 h2 run]
  from t have e: "new_file_effect 1 1 (ex_listing ! 3) (sync_init ex_db 1) s'"
    using h4 step by blast
  show ?thesis
    using h1 h2 h3 h4 h5 run step e t r1 r2 r3 r4 by simp
qed

text \<open>
  Claim C1. The synchronizer is stated to sort every path of the two listings into \<open>new\<close>,
  \<open>updated\<close>, \<open>unchanged\<close> and \<open>removed\<close>, a path with a changed content identifier being
  \<open>updated\<close>. For a path that the branch did not have, the loop first looks for a file row
  of the repository with the path and the identifier of the listing and reuses it; for a
  path whose identifier has changed it runs the \<open>UPDATE\<close> of the row without that look-up.
  So after \<open>dev\<close> has been synchronized to a commit that has \<open>x.ts\<close> at \<open>sha2\<close> (which gives
  \<open>dev\<close> a file row of its own for it), the synchronization of \<open>main\<close>, whose new commit
  brings the same \<open>x.ts\<close>, violates the uniqueness of (repository, path, sha) at that
  \<open>UPDATE\<close>: the transaction is undone, the tool returns the error payload, and \<open>main\<close> keeps
  what it had, \<open>x.ts\<close> at \<open>sha1\<close> included. Both listings have pairwise different paths.
\<close>

theorem processFiles_update_meets_row_of_other_branch:
  "snd (processFiles ex_env_dev None (Some ex_dev_input) ex_db)
     = Inr (Output \<lparr>po_needsUpdate = True,
                     po_filesToProcess = [\<lparr>ftp_id = 5, ftp_path = ''x.ts'', ftp_name = ''x.ts''\<rparr>]\<rparr>)
   \<and> map (\<lambda>f. (f_id f, f_path f, f_sha f)) (branch_files ex_db_dev_synced 2)
       = [(4, ''shared.ts'', ''s1''), (5, ''x.ts'', ''sha2'')]
   \<and> map (\<lambda>f. (f_id f, f_path f, f_sha f)) (branch_files ex_db_dev_synced 1)
       = [(1, ''x.ts'', ''sha1''), (2, ''keep.ts'', ''k1''), (3, ''gone.ts'', ''g1'')]
   \<and> distinct (map rf_path ex_listing)
   \<and> distinct (map ef_path (existingFiles ex_db_dev_synced 1))
   \<and> getRepositoryFiles ex_env ''/repos/repo'' ''main'' = Inr ex_listing
   \<and> processFiles_body 1 1 ex_listing ex_db_dev_synced
       = Inl (Error ''UNIQUE constraint failed: file.repository_id, file.path, file.sha'')
   \<and> processFiles ex_env None (Some ex_process_input) ex_db_dev_synced
       = (ex_db_dev_synced,
          Inr (ErrorPayload
            ''Error executing processFiles tool: UNIQUE constraint failed: file.repository_id, file.path, file.sha''))"
  by code_simp
section \<open>Behaviour of the pipeline on the store\<close>

text \<open>
  Claim C2. Re-chunking a file whose content identifier has changed is stated to remove
  the old chunks and to store the chunks of the new content. \<open>processFileContents\<close> never
  deletes a chunk, and its \<open>INSERT\<close> does nothing where the file already has a chunk with
  the ordinal: after the sync of \<open>x.ts\<close> from \<open>sha1\<close> to \<open>sha2\<close>, with \<open>new x\<close> as the only
  chunk of the new content, the file is \<open>fetched\<close> at \<open>sha2\<close> and its only stored chunk is
  still \<open>old x\<close>.
\<close>

theorem processFileContents_keeps_old_chunks:
  "read_chunks ex_env ''/repos/repo'' ''x.ts'' = Chunks [''new x'']
   \<and> map (\<lambda>f. (f_sha f, f_status f)) (filter (\<lambda>f. f_path f = ''x.ts'') (file_tbl ex_db))
       = [(''sha1'', Fetched)]
   \<and> map (\<lambda>f. (f_sha f, f_status f))
        (filter (\<lambda>f. f_path f = ''x.ts'')
           (file_tbl (fst (processFiles ex_env None (Some ex_process_input) ex_db))))
       = [(''sha2'', Fetched)]
   \<and> map fc_content
        (filter (\<lambda>c. fc_file_id c = 1)
           (file_chunk (fst (processFiles ex_env None (Some ex_process_input) ex_db))))
       = [''old x'']"
  by code_simp

text \<open>The older \<open>queryRepo\<close> deletes the chunks of the file first: on the same store it
  leaves \<open>new x\<close> as the only chunk of \<open>x.ts\<close>.\<close>

lemma legacy_rechunk_replaces_chunks:
  "map fc_content
     (filter (\<lambda>c. fc_file_id c = 1)
        (file_chunk (legacy_rechunk ex_env ''/repos/repo''
                       \<lparr>ftp_id = 1, ftp_path = ''x.ts'', ftp_name = ''x.ts''\<rparr>
                       (db (projr (processFiles_body 1 1 ex_listing ex_db))))))
     = [''new x'']"
  by code_simp

text \<open>
  Claim C3. A branch is stated to become \<open>embeddings_generated\<close> only when each of its
  files is \<open>ingested\<close> or \<open>done\<close>. \<open>embedFiles\<close> sets the status once the chunks it found
  without a vector have one, and reads no file status: on the store left by the run above
  the branch becomes \<open>embeddings_generated\<close> while \<open>missing.ts\<close> is \<open>pending\<close> and has no
  chunk, and the other files are \<open>fetched\<close>.
\<close>

theorem embedFiles_marks_branch_with_pending_file:
  "snd (embedFiles ex_env None (Some \<lparr>ei_repoLocalPath = ''/repos/repo'', ei_branchId = 1\<rparr>)
          (fst (processFiles ex_env None (Some ex_process_input) ex_db)))
     = Inr (Output \<lparr>chunksProcessed = 2\<rparr>)
   \<and> map b_status
        (filter (\<lambda>b. b_id b = 1)
           (branch_tbl (fst (embedFiles ex_env None
              (Some \<lparr>ei_repoLocalPath = ''/repos/repo'', ei_branchId = 1\<rparr>)
              (fst (processFiles ex_env None (Some ex_process_input) ex_db))))))
       = [EmbeddingsGenerated]
   \<and> map (\<lambda>f. (f_path f, f_status f))
        (branch_files (fst (embedFiles ex_env None
              (Some \<lparr>ei_repoLocalPath = ''/repos/repo'', ei_branchId = 1\<rparr>)
              (fst (processFiles ex_env None (Some ex_process_input) ex_db)))) 1)
       = [(''x.ts'', Fetched), (''keep.ts'', Fetched), (''shared.ts'', Fetched),
          (''fresh.ts'', Fetched), (''missing.ts'', Pending)]"
  by code_simp

text \<open>The completion check of \<open>embedBranchFiles\<close>, run on the same store once the two
  chunks have their vectors, marks \<open>fresh.ts\<close> as \<open>ingested\<close> and leaves the branch at
  \<open>files_processed\<close>.\<close>

lemma legacy_completion_keeps_branch:
  "map b_status (filter (\<lambda>b. b_id b = 1) (branch_tbl ex_db_processed)) = [FilesProcessed]
   \<and> map b_status
        (filter (\<lambda>b. b_id b = 1)
           (branch_tbl
              (legacy_completion
                 (store_embeddings ex_db_processed (chunks_without_embeddings ex_db_processed 1)
                    [ex_vector, ex_vector])
                 1 (chunks_without_embeddings ex_db_processed 1))))
       = [FilesProcessed]
   \<and> map (\<lambda>f. (f_path f, f_status f))
        (branch_files
           (legacy_completion
              (store_embeddings ex_db_processed (chunks_without_embeddings ex_db_processed 1)
                 [ex_vector, ex_vector])
              1 (chunks_without_embeddings ex_db_processed 1)) 1)
       = [(''x.ts'', Fetched), (''keep.ts'', Fetched), (''shared.ts'', Fetched),
          (''fresh.ts'', Ingested), (''missing.ts'', Pending)]"
  by code_simp

text \<open>
  Claim C4. The score is stated to be the product sum divided by the number of
  coordinates in both scans. The scan that follows the generation of embeddings leaves
  the division out: the query below, whose first scan has no row, returns the chunks of
  \<open>fresh.ts\<close> with the product sum \<open>1/2\<close>, and the same query asked again, now answered by the
  first scan, returns them with \<open>1/4\<close>.
\<close>

theorem retry_scan_similarity_not_divided:
  "snd (queryRepo ex_env None (Some ex_query_input) ex_db)
     = Inr (Output
         \<lparr>qo_repoUrl = ''https://github.com/o/repo.git'', qo_branch = ''main'',
          qo_results =
            [\<lparr>qr_filePath = ''fresh.ts'', qr_chunkNumber = 1, qr_content = ''fresh one'',
              qr_similarity = Some (1 / 2)\<rparr>,
             \<lparr>qr_filePath = ''fresh.ts'', qr_chunkNumber = 2, qr_content = ''fresh two'',
              qr_similarity = Some (1 / 2)\<rparr>]\<rparr>)
   \<and> spec_similarity [1 / 2, 1 / 2] [1 / 2, 1 / 2] = 1 / 4
   \<and> snd (queryRepo ex_env None (Some ex_query_input)
             (fst (queryRepo ex_env None (Some ex_query_input) ex_db)))
     = Inr (Output
         \<lparr>qo_repoUrl = ''https://github.com/o/repo.git'', qo_branch = ''main'',
          qo_results =
            [\<lparr>qr_filePath = ''fresh.ts'', qr_chunkNumber = 1, qr_content = ''fresh one'',
              qr_similarity = Some (1 / 4)\<rparr>,
             \<lparr>qr_filePath = ''fresh.ts'', qr_chunkNumber = 2, qr_content = ''fresh two'',
              qr_similarity = Some (1 / 4)\<rparr>]\<rparr>)"
  by code_simp

lemma catch_all_returns: "\<exists>p. snd (catch_all tool r) = Inr p"
  unfolding catch_all_def by (cases "snd r") auto

lemma catch_logged_returns: "\<exists>p. snd (snd (catch_logged tool line r)) = Inr p"
  unfolding catch_logged_def by (cases "snd (snd r)") auto

text \<open>
  Claim C9. Whatever the collaborators do and whatever the input is, each tool returns a
  payload, a success value or \<open>{error: {message}}\<close>, and no exception leaves it: the body
  of each tool runs under one \<open>catch\<close>, which turns whatever the body throws into the
  error payload that carries its text. (The timer of the heartbeat is no part of the
  model.)
\<close>

theorem tools_return_payloads:
  "(\<exists>p. snd (queryRepo env n qin d) = Inr p)
   \<and> (\<exists>p. snd (ingestBranch env n iin d) = Inr p)
   \<and> (\<exists>p. snd (processFiles env n pin d) = Inr p)
   \<and> (\<exists>p. snd (embedFiles env n ein d) = Inr p)
   \<and> snd (catch_all tool (d, Inl e))
       = Inr (ErrorPayload (''Error executing '' @ tool @ '' tool: '' @ error_text e)
               :: 'a payload)"
proof -
  have "snd (catch_all tool (d, Inl e))
       = Inr (ErrorPayload (''Error executing '' @ tool @ '' tool: '' @ error_text e)
               :: 'a payload)"
    by (simp add: catch_all_def)
  moreover have "\<exists>p. snd (embedFiles env n ein d) = Inr p"
    unfolding embedFiles_def embedFiles_run_def by (rule catch_logged_returns)
  ultimately show ?thesis
    unfolding queryRepo_def ingestBranch_def processFiles_def
    by (intro conjI catch_all_returns)
qed

section \<open>Properties of the embedding orchestrator and of the search\<close>

subsection \<open>The ranking and the limit\<close>














subsection \<open>The vectors that \<open>embedFiles\<close> stores\<close>

lemma with_vectors_id [simp]: "map fc_id (with_vectors vs cs) = map fc_id cs"
  unfolding with_vectors_def with_vector_def by (induction cs) (auto split: option.splits)

lemma with_vectors_Nil [simp]: "with_vectors [] cs = cs"
  unfolding with_vectors_def with_vector_def by simp





















end
